theory Spec2Isabelle
  imports Main "HOL-Library.Word"
begin

unbundle bit_operations_syntax

section \<open>Bytes, errors, byte sources and sinks\<close>

type_synonym byte = "8 word"

text \<open>
  The error values. The source builds its errors as \<^verbatim>\<open>errors.UnsupportedError(s)\<close> and
  \<^verbatim>\<open>errors.InvalidArgumentError(s)\<close> from a string \<open>s\<close>: two string types of
  \<^verbatim>\<open>openpgp/errors\<close>, told apart by their constructor and, within one type, by the
  message. \<open>EOF\<close> and \<open>ErrUnexpectedEOF\<close> are the two errors of Go's \<^verbatim>\<open>io\<close> package
  that a read can end with; \<open>SinkError\<close> stands for whatever error an \<^verbatim>\<open>io.Writer\<close>
  reports. A run-time panic is not a returned error in Go: it aborts the call. It is
  a branch of the model all the same, the value \<open>Panic\<close>.
\<close>

datatype error =
    UnsupportedError string
  | InvalidArgumentError string
  | EOF
  | ErrUnexpectedEOF
  | SinkError string
  | Panic string

text \<open>\<^verbatim>\<open>strconv.Itoa\<close> on the non-negative integers the source passes to it.\<close>

fun Itoa :: "nat \<Rightarrow> string" where
  "Itoa n =
     (if n < 10 then [''0123456789'' ! n]
      else Itoa (n div 10) @ [''0123456789'' ! (n mod 10)])"

declare Itoa.simps [simp del]

text \<open>
  An \<^verbatim>\<open>io.Reader\<close> is modelled as the bytes it has still to deliver. \<^verbatim>\<open>io.ReadFull(r, buf)\<close>
  with \<open>n = len(buf)\<close> returns the bytes it stored in \<open>buf\<close> and the source that is left:
  \<open>EOF\<close> when nothing could be read, \<open>ErrUnexpectedEOF\<close> when the source ended after some
  but not all of the bytes.
\<close>

type_synonym reader = "byte list"

definition io_ReadFull :: "reader \<Rightarrow> nat \<Rightarrow> error option \<times> byte list \<times> reader" where
  "io_ReadFull r n =
     (if n \<le> length r then (None, take n r, drop n r)
      else (Some (if r = [] then EOF else ErrUnexpectedEOF), r, []))"

text \<open>
  Modelled from the spec: \<^verbatim>\<open>readFull\<close> is declared in packet.go, which is not among the
  sources. The spec describes the byte source as read-exact, where every short read is an
  error of the truncation class: \<^verbatim>\<open>io.ReadFull\<close>, with \<open>EOF\<close> turned into
  \<open>ErrUnexpectedEOF\<close>.
\<close>

definition readFull :: "reader \<Rightarrow> nat \<Rightarrow> error option \<times> byte list \<times> reader" where
  "readFull r n =
     (case io_ReadFull r n of
        (err, buf, r') \<Rightarrow> (if err = Some EOF then Some ErrUnexpectedEOF else err, buf, r'))"

text \<open>
  An \<^verbatim>\<open>io.Writer\<close> is an interface: the model takes its \<^verbatim>\<open>Write\<close> method as a parameter,
  a function from the sink's state and the bytes to an error (or none) and the new state.
  \<open>Buffer_Write\<close> is the \<^verbatim>\<open>Write\<close> of an in-memory buffer, which appends and never fails.
\<close>

type_synonym 'w writer = "'w \<Rightarrow> byte list \<Rightarrow> error option \<times> 'w"

definition Buffer_Write :: "(byte list) writer" where
  "Buffer_Write w p = (None, w @ p)"

section \<open>Big-endian integers\<close>

text \<open>\<^verbatim>\<open>binary.BigEndian\<close>: \<open>Uint32\<close>, \<open>PutUint32\<close>, \<open>Uint64\<close>, \<open>PutUint64\<close>.\<close>

definition BigEndian_Uint32 :: "byte list \<Rightarrow> 32 word" where
  "BigEndian_Uint32 b =
     ucast (b ! 3) OR push_bit 8 (ucast (b ! 2)) OR push_bit 16 (ucast (b ! 1)) OR
     push_bit 24 (ucast (b ! 0))"

definition BigEndian_PutUint32 :: "32 word \<Rightarrow> byte list" where
  "BigEndian_PutUint32 v =
     [ucast (drop_bit 24 v), ucast (drop_bit 16 v), ucast (drop_bit 8 v), ucast v]"

definition BigEndian_Uint64 :: "byte list \<Rightarrow> 64 word" where
  "BigEndian_Uint64 b =
     ucast (b ! 7) OR push_bit 8 (ucast (b ! 6)) OR push_bit 16 (ucast (b ! 5)) OR
     push_bit 24 (ucast (b ! 4)) OR push_bit 32 (ucast (b ! 3)) OR
     push_bit 40 (ucast (b ! 2)) OR push_bit 48 (ucast (b ! 1)) OR
     push_bit 56 (ucast (b ! 0))"

definition BigEndian_PutUint64 :: "64 word \<Rightarrow> byte list" where
  "BigEndian_PutUint64 v =
     [ucast (drop_bit 56 v), ucast (drop_bit 48 v), ucast (drop_bit 40 v),
      ucast (drop_bit 32 v), ucast (drop_bit 24 v), ucast (drop_bit 16 v),
      ucast (drop_bit 8 v), ucast v]"

section \<open>Time\<close>

text \<open>
  A \<^verbatim>\<open>time.Time\<close>, as far as the codec looks at it: the whole seconds since the Unix epoch
  (an \<^verbatim>\<open>int64\<close> in Go) and the nanoseconds within the second. \<open>time_Unix\<close> is the
  function \<^verbatim>\<open>time.Unix(sec, nsec)\<close>, \<open>Unix\<close> the method \<^verbatim>\<open>t.Unix()\<close>.
\<close>

record Time =
  sec :: int
  nsec :: nat

definition time_Unix :: "int \<Rightarrow> nat \<Rightarrow> Time" where
  "time_Unix s n = \<lparr>sec = s + int (n div 1000000000), nsec = n mod 1000000000\<rparr>"

definition Unix :: "Time \<Rightarrow> int" where
  "Unix t = sec t"

section \<open>Hash algorithms\<close>

text \<open>
  \<^verbatim>\<open>crypto.Hash\<close> of the Go library is an unsigned integer; the constants are numbered from
  \<open>MD4 = 1\<close>. \<open>Hash_String\<close> is its \<^verbatim>\<open>String\<close> method, which \<^verbatim>\<open>%v\<close> prints.
\<close>

type_synonym crypto_Hash = nat

definition MD5 :: crypto_Hash where "MD5 = 2"
definition SHA1 :: crypto_Hash where "SHA1 = 3"
definition SHA224 :: crypto_Hash where "SHA224 = 4"
definition SHA256 :: crypto_Hash where "SHA256 = 5"
definition SHA384 :: crypto_Hash where "SHA384 = 6"
definition SHA512 :: crypto_Hash where "SHA512 = 7"
definition SHA3_256 :: crypto_Hash where "SHA3_256 = 11"
definition SHA3_512 :: crypto_Hash where "SHA3_512 = 13"

definition Hash_String :: "crypto_Hash \<Rightarrow> string" where
  "Hash_String h =
     (case map_of
        [(1, ''MD4''), (2, ''MD5''), (3, ''SHA-1''), (4, ''SHA-224''), (5, ''SHA-256''),
         (6, ''SHA-384''), (7, ''SHA-512''), (8, ''MD5+SHA1''), (9, ''RIPEMD-160''),
         (10, ''SHA3-224''), (11, ''SHA3-256''), (12, ''SHA3-384''), (13, ''SHA3-512''),
         (14, ''SHA-512/224''), (15, ''SHA-512/256''), (16, ''BLAKE2s-256''),
         (17, ''BLAKE2b-256''), (18, ''BLAKE2b-384''), (19, ''BLAKE2b-512'')] h of
        Some s \<Rightarrow> s
      | None \<Rightarrow> ''unknown hash value '' @ Itoa h)"

text \<open>
  Modelled from the spec: the legacy-compatible hash-identifier table of
  \<^verbatim>\<open>openpgp/internal/algorithm\<close> is not among the sources. The spec describes it as the
  modern table between a one-byte wire code and a hash algorithm, widened by the two
  historical digests, with SHA-1 at wire code 2. The wire codes are those of RFC 4880,
  section 9.4, which the source follows. A lookup returns the value and \<open>ok\<close> in Go:
  \<open>None\<close> is \<open>ok = false\<close>.
\<close>

definition HashById :: "(byte \<times> crypto_Hash) list" where
  "HashById =
     [(8, SHA256), (9, SHA384), (10, SHA512), (11, SHA224), (12, SHA3_256), (14, SHA3_512)]"

definition HashIdToHashWithSha1Md5 :: "byte \<Rightarrow> crypto_Hash option" where
  "HashIdToHashWithSha1Md5 id' =
     (case map_of HashById id' of
        Some h \<Rightarrow> Some h
      | None \<Rightarrow>
          if id' = 2 then Some SHA1
          else if id' = 1 then Some MD5
          else None)"

definition HashToHashIdWithSha1Md5 :: "crypto_Hash \<Rightarrow> byte option" where
  "HashToHashIdWithSha1Md5 h =
     (case map_of (map (\<lambda>(i, h'). (h', i)) HashById) h of
        Some i \<Rightarrow> Some i
      | None \<Rightarrow>
          if h = SHA1 then Some 2
          else if h = MD5 then Some 1
          else None)"

text \<open>
  Modelled from the spec: the cryptographic provider (\<^verbatim>\<open>crypto.Hash.Available\<close> and
  \<^verbatim>\<open>crypto.Hash.New\<close> of the runtime) answers whether an algorithm has an implementation
  and produces a fresh, empty accumulator for it. Which algorithms are implemented depends
  on the program the package is linked into: it is the parameter \<open>provider\<close>. An
  accumulator is the algorithm and the bytes it has absorbed.
\<close>

type_synonym provider = "crypto_Hash \<Rightarrow> bool"

record hash_Hash =
  algorithm :: crypto_Hash
  absorbed :: "byte list"

definition Available :: "provider \<Rightarrow> crypto_Hash \<Rightarrow> bool" where
  "Available p h = p h"

definition New :: "crypto_Hash \<Rightarrow> hash_Hash" where
  "New h = \<lparr>algorithm = h, absorbed = []\<rparr>"

section \<open>Multi-precision integers\<close>

text \<open>
  Modelled from the spec: \<^verbatim>\<open>encoding.MPI\<close> and \<^verbatim>\<open>encoding.Field\<close> are declared in
  \<^verbatim>\<open>openpgp/internal/encoding\<close>, which is not among the sources. The spec describes a
  multi-precision-integer codec whose fields are self-length-prefixed on the wire, with
  a read-from-stream and a write-encoded-bytes operation. The encoding is the one of
  RFC 4880 (section 3.2), which the source cites: a two-octet big-endian count of bits,
  then the integer in \<open>(bits + 7) div 8\<close> octets. (The worked example of the spec
  writes the prefix of the integer 0x7F as the single octet 01; in this encoding it is
  the two octets 00 07.) An \<open>MPI\<close> keeps the octets and the count
  as they were read, so that it is written back as it came. \<open>bytes = None\<close> is Go's nil
  slice, which is what \<^verbatim>\<open>Bytes() == nil\<close> in \<^verbatim>\<open>Serialize\<close> tests; \<open>new_MPI\<close> is
  \<^verbatim>\<open>new(encoding.MPI)\<close>.
\<close>

record MPI =
  bytes :: "byte list option"
  bitLength :: "16 word"

definition new_MPI :: MPI where
  "new_MPI = \<lparr>bytes = None, bitLength = 0\<rparr>"

definition MPI_Bytes :: "MPI \<Rightarrow> byte list option" where
  "MPI_Bytes m = bytes m"

definition MPI_EncodedBytes :: "MPI \<Rightarrow> byte list" where
  "MPI_EncodedBytes m =
     [ucast (drop_bit 8 (bitLength m)), ucast (bitLength m)] @
     (case bytes m of None \<Rightarrow> [] | Some bs \<Rightarrow> bs)"

definition MPI_ReadFrom :: "MPI \<Rightarrow> reader \<Rightarrow> error option \<times> MPI \<times> reader" where
  "MPI_ReadFrom m r =
     (case io_ReadFull r 2 of
        (Some err, buf, r1) \<Rightarrow> (Some (if err = EOF then ErrUnexpectedEOF else err), m, r1)
      | (None, buf, r1) \<Rightarrow>
          let bl = push_bit 8 (ucast (buf ! 0)) OR ucast (buf ! 1) :: 16 word;
              n = (unat bl + 7) div 8
          in (case io_ReadFull r1 n of
                (err, bs, r2) \<Rightarrow>
                  (if err = Some EOF then Some ErrUnexpectedEOF else err,
                   \<lparr>bytes = Some (bs @ replicate (n - length bs) 0), bitLength = bl\<rparr>,
                   r2)))"

text \<open>
  The three slots of a record are declared with the type \<^verbatim>\<open>encoding.Field\<close>, and
  \<^verbatim>\<open>parse\<close> stores \<^verbatim>\<open>new(encoding.MPI)\<close>, a pointer, in them (lines 93, 96 and 101):
  \<^verbatim>\<open>Field\<close> is an interface that \<^verbatim>\<open>*MPI\<close> implements. The zero value of a slot, which
  a slot that was never assigned holds, is the nil interface value, \<open>None\<close> here, and
  calling a method on it is a run-time panic (a nil dereference). \<open>Field_Bytes\<close> and
  \<open>Field_EncodedBytes\<close> are the method calls \<^verbatim>\<open>f.Bytes()\<close> and \<^verbatim>\<open>f.EncodedBytes()\<close> on a
  slot.
\<close>

type_synonym Field = "MPI option"

definition nil_dereference :: error where
  "nil_dereference = Panic ''runtime error: invalid memory address or nil pointer dereference''"

definition Field_Bytes :: "Field \<Rightarrow> error + byte list option" where
  "Field_Bytes f = (case f of None \<Rightarrow> Inl nil_dereference | Some m \<Rightarrow> Inr (MPI_Bytes m))"

definition Field_EncodedBytes :: "Field \<Rightarrow> error + byte list" where
  "Field_EncodedBytes f =
     (case f of None \<Rightarrow> Inl nil_dereference | Some m \<Rightarrow> Inr (MPI_EncodedBytes m))"

section \<open>The version 3 signature record\<close>

text \<open>
  Modelled from the spec: the public-key algorithm codes are declared in packet.go, which
  is not among the sources. The spec names the closed set RSA (sign and encrypt), RSA
  (sign only) and DSA, with RSA (sign and encrypt) at wire code 1; the codes are those of
  RFC 4880, section 9.1.
\<close>

definition PubKeyAlgoRSA :: byte where "PubKeyAlgoRSA = 1"
definition PubKeyAlgoRSASignOnly :: byte where "PubKeyAlgoRSASignOnly = 3"
definition PubKeyAlgoDSA :: byte where "PubKeyAlgoDSA = 17"

record SignatureV3 =
  SigType :: byte
  CreationTime :: Time
  IssuerKeyId :: "64 word"
  PubKeyAlgo :: byte
  Hash :: crypto_Hash
  HashTag :: "byte \<times> byte"
  RSASignature :: Field
  DSASigR :: Field
  DSASigS :: Field

text \<open>The zero value \<^verbatim>\<open>SignatureV3{}\<close>, which \<^verbatim>\<open>new(SignatureV3)\<close> points to.\<close>

definition new_SignatureV3 :: SignatureV3 where
  "new_SignatureV3 =
     \<lparr>SigType = 0, CreationTime = \<lparr>sec = 0, nsec = 0\<rparr>, IssuerKeyId = 0, PubKeyAlgo = 0,
      Hash = 0, HashTag = (0, 0), RSASignature = None, DSASigR = None, DSASigS = None\<rparr>"

subsection \<open>parse\<close>

text \<open>
  \<^verbatim>\<open>parse\<close> fills the record it is called on and returns an error or nil. The model
  returns the error, the record as far as it was filled, and the source that is left, so
  that what a failed call has read and written can be stated. The function is given in
  two parts: \<open>parse_header\<close> is the fixed-width part (lines 39 to 89 of the source),
  \<open>parse_material\<close> the switch on the algorithm that reads the integers (lines 91 to 105).
\<close>

definition parse_header ::
  "SignatureV3 \<Rightarrow> reader \<Rightarrow> error option \<times> SignatureV3 \<times> reader" where
  "parse_header sig r =
     (case readFull r 1 of
        (Some err, buf, r1) \<Rightarrow> (Some err, sig, r1)
      | (None, buf, r1) \<Rightarrow>
     if buf ! 0 < 2 \<or> buf ! 0 > 3 then
       (Some (UnsupportedError (''signature packet version '' @ Itoa (unat (buf ! 0)))),
        sig, r1)
     else
     (case readFull r1 1 of
        (Some err, buf, r2) \<Rightarrow> (Some err, sig, r2)
      | (None, buf, r2) \<Rightarrow>
     if buf ! 0 \<noteq> 5 then
       (Some (UnsupportedError
          (''invalid hashed material length '' @ Itoa (unat (buf ! 0)))),
        sig, r2)
     else
     (case readFull r2 5 of
        (Some err, buf, r3) \<Rightarrow> (Some err, sig, r3)
      | (None, buf, r3) \<Rightarrow>
     let sig = sig\<lparr>SigType := buf ! 0\<rparr>;
         t = BigEndian_Uint32 (take 4 (drop 1 buf));
         sig = sig\<lparr>CreationTime := time_Unix (uint t) 0\<rparr>
     in
     (case readFull r3 8 of
        (Some err, buf, r4) \<Rightarrow> (Some err, sig, r4)
      | (None, buf, r4) \<Rightarrow>
     let sig = sig\<lparr>IssuerKeyId := BigEndian_Uint64 buf\<rparr> in
     (case readFull r4 2 of
        (Some err, buf, r5) \<Rightarrow> (Some err, sig, r5)
      | (None, buf, r5) \<Rightarrow>
     let sig = sig\<lparr>PubKeyAlgo := buf ! 0\<rparr> in
     if PubKeyAlgo sig \<noteq> PubKeyAlgoRSA \<and> PubKeyAlgo sig \<noteq> PubKeyAlgoRSASignOnly \<and>
        PubKeyAlgo sig \<noteq> PubKeyAlgoDSA
     then
       (Some (UnsupportedError (''public key algorithm '' @ Itoa (unat (PubKeyAlgo sig)))),
        sig, r5)
     else
     (case HashIdToHashWithSha1Md5 (buf ! 1) of
        None \<Rightarrow>
          (Some (UnsupportedError (''hash function '' @ Itoa (unat (buf ! 1)))),
           sig\<lparr>Hash := 0\<rparr>, r5)
      | Some h \<Rightarrow>
     let sig = sig\<lparr>Hash := h\<rparr> in
     (case readFull r5 2 of
        (Some err, buf, r6) \<Rightarrow>
          (Some err,
           sig\<lparr>HashTag :=
             (case buf of [] \<Rightarrow> HashTag sig | b # _ \<Rightarrow> (b, snd (HashTag sig)))\<rparr>,
           r6)
      | (None, buf, r6) \<Rightarrow>
          (None, sig\<lparr>HashTag := (buf ! 0, buf ! 1)\<rparr>, r6))))))))"

definition parse_material ::
  "SignatureV3 \<Rightarrow> reader \<Rightarrow> error option \<times> SignatureV3 \<times> reader" where
  "parse_material sig r =
     (if PubKeyAlgo sig = PubKeyAlgoRSA \<or> PubKeyAlgo sig = PubKeyAlgoRSASignOnly then
        (case MPI_ReadFrom new_MPI r of
           (err, m, r1) \<Rightarrow> (err, sig\<lparr>RSASignature := Some m\<rparr>, r1))
      else if PubKeyAlgo sig = PubKeyAlgoDSA then
        (case MPI_ReadFrom new_MPI r of
           (Some err, m, r1) \<Rightarrow> (Some err, sig\<lparr>DSASigR := Some m\<rparr>, r1)
         | (None, m, r1) \<Rightarrow>
        (case MPI_ReadFrom new_MPI r1 of
           (err, m', r2) \<Rightarrow> (err, sig\<lparr>DSASigR := Some m, DSASigS := Some m'\<rparr>, r2)))
      else (Some (Panic ''unreachable''), sig, r))"

definition parse :: "SignatureV3 \<Rightarrow> reader \<Rightarrow> error option \<times> SignatureV3 \<times> reader" where
  "parse sig r =
     (case parse_header sig r of
        (Some err, sig', r') \<Rightarrow> (Some err, sig', r')
      | (None, sig', r') \<Rightarrow> parse_material sig' r')"

subsection \<open>Serialize\<close>

definition Serialize :: "'w writer \<Rightarrow> SignatureV3 \<Rightarrow> 'w \<Rightarrow> error option \<times> 'w" where
  "Serialize Write sig w =
     (case Write w (SigType sig #
                    BigEndian_PutUint32 (word_of_int (Unix (CreationTime sig)))) of
        (Some err, w1) \<Rightarrow> (Some err, w1)
      | (None, w1) \<Rightarrow>
     (case Write w1 (BigEndian_PutUint64 (IssuerKeyId sig)) of
        (Some err, w2) \<Rightarrow> (Some err, w2)
      | (None, w2) \<Rightarrow>
     (case HashToHashIdWithSha1Md5 (Hash sig) of
        None \<Rightarrow> (Some (UnsupportedError (''hash function '' @ Hash_String (Hash sig))), w2)
      | Some hashId \<Rightarrow>
     (case Write w2 [PubKeyAlgo sig, hashId, fst (HashTag sig), snd (HashTag sig)] of
        (Some err, w3) \<Rightarrow> (Some err, w3)
      | (None, w3) \<Rightarrow>
     (case Field_Bytes (RSASignature sig) of
        Inl p \<Rightarrow> (Some p, w3)
      | Inr rsa \<Rightarrow>
     (case (if rsa = None then Field_Bytes (DSASigR sig) else Inr rsa) of
        Inl p \<Rightarrow> (Some p, w3)
      | Inr material \<Rightarrow>
     if material = None then
       (Some (InvalidArgumentError
          ''Signature: need to call Sign, SignUserId or SignKey before Serialize''), w3)
     else if PubKeyAlgo sig = PubKeyAlgoRSA \<or> PubKeyAlgo sig = PubKeyAlgoRSASignOnly then
       (case Field_EncodedBytes (RSASignature sig) of
          Inl p \<Rightarrow> (Some p, w3)
        | Inr enc \<Rightarrow> Write w3 enc)
     else if PubKeyAlgo sig = PubKeyAlgoDSA then
       (case Field_EncodedBytes (DSASigR sig) of
          Inl p \<Rightarrow> (Some p, w3)
        | Inr enc \<Rightarrow>
       (case Write w3 enc of
          (Some err, w4) \<Rightarrow> (Some err, w4)
        | (None, w4) \<Rightarrow>
       (case Field_EncodedBytes (DSASigS sig) of
          Inl p \<Rightarrow> (Some p, w4)
        | Inr enc \<Rightarrow> Write w4 enc)))
     else (Some (Panic ''impossible''), w3)))))))"

subsection \<open>PrepareVerify\<close>

text \<open>
  \<^verbatim>\<open>PrepareVerify\<close> has a pointer receiver; the model returns the record next to the
  result, so that what the call does to the record is part of its value.
\<close>

definition PrepareVerify :: "provider \<Rightarrow> SignatureV3 \<Rightarrow> (error + hash_Hash) \<times> SignatureV3" where
  "PrepareVerify p sig =
     (if \<not> Available p (Hash sig) then (Inl (UnsupportedError ''hash function''), sig)
      else (Inr (New (Hash sig)), sig))"

section \<open>Names for the statements\<close>

text \<open>
  The errors under the names the spec gives them, as the error values the source builds:
  the source has one error type for all unsupported input, told apart by its message.
\<close>

definition UnsupportedVersion :: "nat \<Rightarrow> error" where
  "UnsupportedVersion n = UnsupportedError (''signature packet version '' @ Itoa n)"

definition UnsupportedHashedLength :: "nat \<Rightarrow> error" where
  "UnsupportedHashedLength n = UnsupportedError (''invalid hashed material length '' @ Itoa n)"

definition UnsupportedPublicKeyAlgorithm :: "nat \<Rightarrow> error" where
  "UnsupportedPublicKeyAlgorithm n = UnsupportedError (''public key algorithm '' @ Itoa n)"

definition MissingSignatureMaterial :: error where
  "MissingSignatureMaterial =
     InvalidArgumentError ''Signature: need to call Sign, SignUserId or SignKey before Serialize''"

text \<open>
  A well-formed integer: it has octets, as many as its count of bits asks for. Every
  integer that \<open>MPI_ReadFrom\<close> has read is well-formed.
\<close>

definition well_formed_MPI :: "MPI \<Rightarrow> bool" where
  "well_formed_MPI m =
     (case bytes m of None \<Rightarrow> False | Some bs \<Rightarrow> length bs = (unat (bitLength m) + 7) div 8)"

text \<open>
  The worked example of the spec: version 3, hashed length 5, signature type 0, a
  creation time, a key id, RSA (sign and encrypt), SHA-1 (wire code 2), a hash tag and
  the integer 0x7F, which as a multi-precision integer is the octets 00 07 7F (a count of
  7 bits, then the octet). \<open>example_record\<close> is the record it decodes to.
\<close>

definition example_packet :: "byte list" where
  "example_packet =
     [3, 5, 0, 0x5F, 0, 0, 1, 1, 2, 3, 4, 5, 6, 7, 8, 1, 2, 0xAB, 0xCD, 0, 7, 0x7F]"

definition example_record :: SignatureV3 where
  "example_record =
     \<lparr>SigType = 0, CreationTime = \<lparr>sec = 0x5F000001, nsec = 0\<rparr>,
      IssuerKeyId = 0x0102030405060708, PubKeyAlgo = 1, Hash = 3, HashTag = (0xAB, 0xCD),
      RSASignature = Some \<lparr>bytes = Some [0x7F], bitLength = 7\<rparr>,
      DSASigR = None, DSASigS = None\<rparr>"

text \<open>The same packet with DSA as the algorithm and two integers, 0x7F and 0x0102.\<close>

definition example_DSA_packet :: "byte list" where
  "example_DSA_packet =
     [3, 5, 0, 0x5F, 0, 0, 1, 1, 2, 3, 4, 5, 6, 7, 8, 17, 2, 0xAB, 0xCD, 0, 7, 0x7F,
      0, 9, 1, 2]"

text \<open>
  A record with the DSA integers of that packet whose RSA slot holds a field that was
  allocated and never filled.
\<close>

definition example_DSA_record :: SignatureV3 where
  "example_DSA_record =
     example_record
       \<lparr>PubKeyAlgo := 17, RSASignature := Some new_MPI,
        DSASigR := Some \<lparr>bytes = Some [0x7F], bitLength = 7\<rparr>,
        DSASigS := Some \<lparr>bytes = Some [1, 2], bitLength = 9\<rparr>\<rparr>"

section \<open>Lemmas\<close>

lemmas crypto_Hash_defs =
  MD5_def SHA1_def SHA224_def SHA256_def SHA384_def SHA512_def SHA3_256_def SHA3_512_def

lemmas PubKeyAlgo_defs = PubKeyAlgoRSA_def PubKeyAlgoRSASignOnly_def PubKeyAlgoDSA_def

lemmas parse_unfold =
  parse_def parse_header_def parse_material_def readFull_def io_ReadFull_def MPI_ReadFrom_def
  new_MPI_def new_SignatureV3_def PubKeyAlgo_defs HashIdToHashWithSha1Md5_def HashById_def
  crypto_Hash_defs BigEndian_Uint32_def BigEndian_Uint64_def time_Unix_def Let_def

subsection \<open>Words and bytes\<close>

lemma version_gate: "((a::byte) < 2 \<or> 3 < a) = (a \<noteq> 2 \<and> a \<noteq> 3)"
  by unat_arith

lemma byte_bit_high: "8 \<le> k \<Longrightarrow> \<not> bit (x :: byte) k"
  by (auto dest: bit_imp_le_length)

lemma bitLength_bytes:
  "push_bit 8 (ucast (ucast (drop_bit 8 w) :: byte)) OR ucast (ucast w :: byte) = (w :: 16 word)"
proof (rule bit_word_eqI)
  fix n assume "n < LENGTH(16)"
  then consider "n < 8" | "8 \<le> n" "n < 16" by fastforce
  then show "bit (push_bit 8 (ucast (ucast (drop_bit 8 w) :: byte)) OR ucast (ucast w :: byte) :: 16 word) n = bit w n"
    by cases (auto simp add: bit_simps)
qed

lemma bytes_bitLength:
  "ucast (drop_bit 8 (push_bit 8 (ucast (a :: byte)) OR ucast (b :: byte) :: 16 word)) = a"
  "ucast (push_bit 8 (ucast (a :: byte)) OR ucast (b :: byte) :: 16 word) = b"
  "ucast (drop_bit 8 (push_bit 8 (ucast (a :: byte))) OR drop_bit 8 (ucast (b :: byte)) :: 16 word) = a"
  by (rule bit_word_eqI; simp add: bit_simps byte_bit_high)+

lemma Uint32_PutUint32: "BigEndian_Uint32 (BigEndian_PutUint32 v) = v"
proof (rule bit_word_eqI)
  fix n assume "n < LENGTH(32)"
  then have n: "n < 32" by simp
  consider "n < 8" | "8 \<le> n" "n < 16" | "16 \<le> n" "n < 24" | "24 \<le> n" "n < 32"
    using n by linarith
  then show "bit (BigEndian_Uint32 (BigEndian_PutUint32 v)) n = bit v n"
    by cases (auto simp add: BigEndian_Uint32_def BigEndian_PutUint32_def bit_simps)
qed

lemma Uint64_PutUint64: "BigEndian_Uint64 (BigEndian_PutUint64 v) = v"
proof (rule bit_word_eqI)
  fix n assume "n < LENGTH(64)"
  then have n: "n < 64" by simp
  consider "n < 8" | "8 \<le> n" "n < 16" | "16 \<le> n" "n < 24" | "24 \<le> n" "n < 32"
    | "32 \<le> n" "n < 40" | "40 \<le> n" "n < 48" | "48 \<le> n" "n < 56" | "56 \<le> n" "n < 64"
    using n by linarith
  then show "bit (BigEndian_Uint64 (BigEndian_PutUint64 v)) n = bit v n"
    by cases (auto simp add: BigEndian_Uint64_def BigEndian_PutUint64_def bit_simps)
qed

lemma PutUint32_Uint32:
  "BigEndian_PutUint32 (BigEndian_Uint32 [a, b, c, d]) = [a, b, c, d]"
  unfolding BigEndian_Uint32_def BigEndian_PutUint32_def
  by (simp; intro conjI; rule bit_word_eqI; simp add: bit_simps byte_bit_high)

lemma PutUint64_Uint64:
  "BigEndian_PutUint64 (BigEndian_Uint64 [a, b, c, d, e, f, g, h]) = [a, b, c, d, e, f, g, h]"
  unfolding BigEndian_Uint64_def BigEndian_PutUint64_def
  by (simp; intro conjI; rule bit_word_eqI; simp add: bit_simps byte_bit_high)

lemma PutUint32_Uint32_list:
  assumes "length xs = 4"
  shows "BigEndian_PutUint32 (BigEndian_Uint32 xs) = xs"
proof -
  from assms obtain a b c d where "xs = [a, b, c, d]"
    by (auto simp add: eval_nat_numeral length_Suc_conv)
  then show ?thesis by (simp only: PutUint32_Uint32)
qed

lemma PutUint64_Uint64_list:
  assumes "length xs = 8"
  shows "BigEndian_PutUint64 (BigEndian_Uint64 xs) = xs"
proof -
  from assms obtain a b c d e f g h where "xs = [a, b, c, d, e, f, g, h]"
    by (auto simp add: eval_nat_numeral length_Suc_conv)
  then show ?thesis by (simp only: PutUint64_Uint64)
qed

lemma take_drop_step: "take n (drop k xs) @ drop (k + n) xs = drop k xs"
  by (metis add.commute append_take_drop_id drop_drop)

lemma header_layout:
  assumes "19 \<le> length bs"
  shows "drop 2 bs =
     bs ! 2 # take 4 (drop 3 bs) @ take 8 (drop 7 bs) @ [bs ! 15, bs ! 16, bs ! 17, bs ! 18] @
     drop 19 bs"
proof -
  have "drop 2 bs = bs ! 2 # drop 3 bs"
    using assms Cons_nth_drop_Suc [of 2 bs] by simp
  moreover have "drop 3 bs = take 4 (drop 3 bs) @ drop 7 bs"
    using take_drop_step [of 4 3 bs] by simp
  moreover have "drop 7 bs = take 8 (drop 7 bs) @ drop 15 bs"
    using take_drop_step [of 8 7 bs] by simp
  moreover have "drop 15 bs = bs ! 15 # drop 16 bs"
    using assms Cons_nth_drop_Suc [of 15 bs] by simp
  moreover have "drop 16 bs = bs ! 16 # drop 17 bs"
    using assms Cons_nth_drop_Suc [of 16 bs] by simp
  moreover have "drop 17 bs = bs ! 17 # drop 18 bs"
    using assms Cons_nth_drop_Suc [of 17 bs] by simp
  moreover have "drop 18 bs = bs ! 18 # drop 19 bs"
    using assms Cons_nth_drop_Suc [of 18 bs] by simp
  ultimately show ?thesis by simp
qed

subsection \<open>The hash table\<close>

lemma hash_table_decode:
  "HashToHashIdWithSha1Md5 h = Some i \<Longrightarrow> HashIdToHashWithSha1Md5 i = Some h"
  by (auto simp add: HashToHashIdWithSha1Md5_def HashIdToHashWithSha1Md5_def HashById_def
      crypto_Hash_defs split: if_splits)

lemma hash_table_encode:
  "HashIdToHashWithSha1Md5 i = Some h \<Longrightarrow> HashToHashIdWithSha1Md5 h = Some i"
  by (auto simp add: HashToHashIdWithSha1Md5_def HashIdToHashWithSha1Md5_def HashById_def
      crypto_Hash_defs split: if_splits)

subsection \<open>Reading\<close>

lemma readFull_ok: "n \<le> length r \<Longrightarrow> readFull r n = (None, take n r, drop n r)"
  by (simp add: readFull_def io_ReadFull_def)

lemma readFull_short: "length r < n \<Longrightarrow> readFull r n = (Some ErrUnexpectedEOF, r, [])"
  by (simp add: readFull_def io_ReadFull_def)

lemma MPI_ReadFrom_EncodedBytes:
  "well_formed_MPI m \<Longrightarrow> MPI_ReadFrom m0 (MPI_EncodedBytes m @ rest) = (None, m, rest)"
  by (cases m) (auto simp add: well_formed_MPI_def MPI_ReadFrom_def MPI_EncodedBytes_def io_ReadFull_def
      Let_def bitLength_bytes split: option.splits)

lemma MPI_EncodedBytes_ReadFrom:
  assumes "MPI_ReadFrom m0 r = (None, m, r')"
  shows "MPI_EncodedBytes m @ r' = r"
proof -
  from assms have len: "2 \<le> length r"
    by (auto simp add: MPI_ReadFrom_def io_ReadFull_def Let_def split: if_splits)
  then obtain a b t where r: "r = a # b # t"
    by (cases r; cases "tl r") auto
  from assms show ?thesis
    unfolding r
    by (auto simp add: MPI_ReadFrom_def io_ReadFull_def Let_def MPI_EncodedBytes_def
        bytes_bitLength split: if_splits)
qed

lemma MPI_ReadFrom_error:
  "fst (MPI_ReadFrom m r) = None \<or> fst (MPI_ReadFrom m r) = Some ErrUnexpectedEOF"
  by (auto simp add: MPI_ReadFrom_def io_ReadFull_def Let_def)

lemma MPI_ReadFrom_well_formed:
  "MPI_ReadFrom m r = (None, m', r') \<Longrightarrow> well_formed_MPI m'"
  by (auto simp add: MPI_ReadFrom_def io_ReadFull_def Let_def well_formed_MPI_def split: if_splits)

lemma MPI_ReadFrom_short:
  "MPI_ReadFrom m r = (None, m', r') \<Longrightarrow> k < length r - length r' \<Longrightarrow>
   fst (MPI_ReadFrom m (take k r)) = Some ErrUnexpectedEOF"
  by (auto simp add: MPI_ReadFrom_def io_ReadFull_def Let_def min_def split: if_splits)

lemma MPI_ReadFrom_take:
  "MPI_ReadFrom m r = (None, m', r') \<Longrightarrow> length r - length r' \<le> k \<Longrightarrow>
   MPI_ReadFrom m (take k r) = (None, m', take (k - (length r - length r')) r')"
  by (auto simp add: MPI_ReadFrom_def io_ReadFull_def Let_def min_def drop_take split: if_splits)

lemma MPI_ReadFrom_length:
  "MPI_ReadFrom m r = (e, m', r') \<Longrightarrow> length r' \<le> length r"
  by (auto simp add: MPI_ReadFrom_def io_ReadFull_def Let_def split: if_splits)

subsection \<open>The header, stage by stage\<close>

text \<open>
  What \<open>parse_header\<close> returns, by the length of the source and the gates it passes.
  The offsets are those of the wire layout: version 0, hashed length 1, signature type 2,
  creation time 3 to 6, key id 7 to 14, the two algorithm codes 15 and 16, hash tag 17
  and 18.
\<close>

lemma parse_header_empty: "parse_header sig [] = (Some ErrUnexpectedEOF, sig, [])"
  by (simp add: parse_header_def readFull_short)

lemma parse_header_version:
  "bs \<noteq> [] \<Longrightarrow> bs ! 0 \<noteq> 2 \<Longrightarrow> bs ! 0 \<noteq> 3 \<Longrightarrow>
   parse_header sig bs =
     (Some (UnsupportedError (''signature packet version '' @ Itoa (unat (bs ! 0)))), sig, drop 1 bs)"
  by (cases bs) (simp_all add: parse_header_def readFull_ok version_gate)

lemma parse_header_short1:
  "length bs = 1 \<Longrightarrow> bs ! 0 = 2 \<or> bs ! 0 = 3 \<Longrightarrow>
   parse_header sig bs = (Some ErrUnexpectedEOF, sig, [])"
  by (auto simp add: parse_header_def readFull_ok readFull_short version_gate)

lemma parse_header_length:
  "2 \<le> length bs \<Longrightarrow> bs ! 0 = 2 \<or> bs ! 0 = 3 \<Longrightarrow> bs ! 1 \<noteq> 5 \<Longrightarrow>
   parse_header sig bs =
     (Some (UnsupportedError (''invalid hashed material length '' @ Itoa (unat (bs ! 1)))), sig, drop 2 bs)"
  by (auto simp add: parse_header_def readFull_ok readFull_short version_gate numeral_2_eq_2)

lemma parse_header_short2:
  "2 \<le> length bs \<Longrightarrow> length bs < 7 \<Longrightarrow> bs ! 0 = 2 \<or> bs ! 0 = 3 \<Longrightarrow> bs ! 1 = 5 \<Longrightarrow>
   parse_header sig bs = (Some ErrUnexpectedEOF, sig, [])"
  by (auto simp add: parse_header_def readFull_ok readFull_short version_gate)

lemma parse_header_short3:
  "7 \<le> length bs \<Longrightarrow> length bs < 15 \<Longrightarrow> bs ! 0 = 2 \<or> bs ! 0 = 3 \<Longrightarrow> bs ! 1 = 5 \<Longrightarrow>
   fst (parse_header sig bs) = Some ErrUnexpectedEOF"
  by (auto simp add: parse_header_def readFull_ok readFull_short version_gate Let_def drop_take numeral_2_eq_2 numeral_3_eq_3)

lemma parse_header_short4:
  "15 \<le> length bs \<Longrightarrow> length bs < 17 \<Longrightarrow> bs ! 0 = 2 \<or> bs ! 0 = 3 \<Longrightarrow> bs ! 1 = 5 \<Longrightarrow>
   fst (parse_header sig bs) = Some ErrUnexpectedEOF"
  by (auto simp add: parse_header_def readFull_ok readFull_short version_gate Let_def drop_take numeral_2_eq_2 numeral_3_eq_3)

lemma parse_header_algo:
  "17 \<le> length bs \<Longrightarrow> bs ! 0 = 2 \<or> bs ! 0 = 3 \<Longrightarrow> bs ! 1 = 5 \<Longrightarrow>
   bs ! 15 \<noteq> PubKeyAlgoRSA \<Longrightarrow> bs ! 15 \<noteq> PubKeyAlgoRSASignOnly \<Longrightarrow> bs ! 15 \<noteq> PubKeyAlgoDSA \<Longrightarrow>
   parse_header sig bs =
     (Some (UnsupportedError (''public key algorithm '' @ Itoa (unat (bs ! 15)))),
      sig\<lparr>SigType := bs ! 2,
          CreationTime := time_Unix (uint (BigEndian_Uint32 (take 4 (drop 3 bs)))) 0,
          IssuerKeyId := BigEndian_Uint64 (take 8 (drop 7 bs)),
          PubKeyAlgo := bs ! 15\<rparr>,
      drop 17 bs)"
  by (auto simp add: parse_header_def readFull_ok readFull_short version_gate Let_def drop_take numeral_2_eq_2 numeral_3_eq_3)

lemma parse_header_hash:
  "17 \<le> length bs \<Longrightarrow> bs ! 0 = 2 \<or> bs ! 0 = 3 \<Longrightarrow> bs ! 1 = 5 \<Longrightarrow>
   bs ! 15 = PubKeyAlgoRSA \<or> bs ! 15 = PubKeyAlgoRSASignOnly \<or> bs ! 15 = PubKeyAlgoDSA \<Longrightarrow>
   HashIdToHashWithSha1Md5 (bs ! 16) = None \<Longrightarrow>
   parse_header sig bs =
     (Some (UnsupportedError (''hash function '' @ Itoa (unat (bs ! 16)))),
      sig\<lparr>SigType := bs ! 2,
          CreationTime := time_Unix (uint (BigEndian_Uint32 (take 4 (drop 3 bs)))) 0,
          IssuerKeyId := BigEndian_Uint64 (take 8 (drop 7 bs)),
          PubKeyAlgo := bs ! 15, Hash := 0\<rparr>,
      drop 17 bs)"
  by (auto simp add: parse_header_def readFull_ok readFull_short version_gate Let_def drop_take numeral_2_eq_2 numeral_3_eq_3)

lemma parse_header_short5:
  "17 \<le> length bs \<Longrightarrow> length bs < 19 \<Longrightarrow> bs ! 0 = 2 \<or> bs ! 0 = 3 \<Longrightarrow> bs ! 1 = 5 \<Longrightarrow>
   bs ! 15 = PubKeyAlgoRSA \<or> bs ! 15 = PubKeyAlgoRSASignOnly \<or> bs ! 15 = PubKeyAlgoDSA \<Longrightarrow>
   HashIdToHashWithSha1Md5 (bs ! 16) = Some h \<Longrightarrow>
   fst (parse_header sig bs) = Some ErrUnexpectedEOF"
  by (auto simp add: parse_header_def readFull_ok readFull_short version_gate Let_def drop_take numeral_2_eq_2 numeral_3_eq_3)

lemma parse_header_ok:
  "19 \<le> length bs \<Longrightarrow> bs ! 0 = 2 \<or> bs ! 0 = 3 \<Longrightarrow> bs ! 1 = 5 \<Longrightarrow>
   bs ! 15 = PubKeyAlgoRSA \<or> bs ! 15 = PubKeyAlgoRSASignOnly \<or> bs ! 15 = PubKeyAlgoDSA \<Longrightarrow>
   HashIdToHashWithSha1Md5 (bs ! 16) = Some h \<Longrightarrow>
   parse_header sig bs =
     (None,
      sig\<lparr>SigType := bs ! 2,
          CreationTime := time_Unix (uint (BigEndian_Uint32 (take 4 (drop 3 bs)))) 0,
          IssuerKeyId := BigEndian_Uint64 (take 8 (drop 7 bs)),
          PubKeyAlgo := bs ! 15, Hash := h, HashTag := (bs ! 17, bs ! 18)\<rparr>,
      drop 19 bs)"
  by (auto simp add: parse_header_def readFull_ok readFull_short version_gate Let_def drop_take numeral_2_eq_2 numeral_3_eq_3)

lemma parse_header_error:
  "fst (parse_header sig bs) = Some e \<Longrightarrow> fst (parse sig bs) = Some e"
  by (cases "parse_header sig bs") (auto simp add: parse_def)

lemma parse_material_error:
  "PubKeyAlgo s = PubKeyAlgoRSA \<or> PubKeyAlgo s = PubKeyAlgoRSASignOnly \<or> PubKeyAlgo s = PubKeyAlgoDSA \<Longrightarrow>
   fst (parse_material s r) = None \<or> fst (parse_material s r) = Some ErrUnexpectedEOF"
  using MPI_ReadFrom_error [of new_MPI r]
  apply (cases "MPI_ReadFrom new_MPI r")
  subgoal for e m r1
    using MPI_ReadFrom_error [of new_MPI r1]
    by (cases "MPI_ReadFrom new_MPI r1") (auto simp add: parse_material_def split: option.splits)
  done

lemma parse_after_gates:
  assumes "2 \<le> length bs" and "bs ! 0 = 2 \<or> bs ! 0 = 3" and "bs ! 1 = 5"
  shows "fst (parse sig bs) = None \<or> fst (parse sig bs) = Some ErrUnexpectedEOF \<or>
         fst (parse sig bs) =
           Some (UnsupportedError (''public key algorithm '' @ Itoa (unat (bs ! 15)))) \<or>
         fst (parse sig bs) = Some (UnsupportedError (''hash function '' @ Itoa (unat (bs ! 16))))"
proof -
  let ?algo = "bs ! 15 = PubKeyAlgoRSA \<or> bs ! 15 = PubKeyAlgoRSASignOnly \<or> bs ! 15 = PubKeyAlgoDSA"
  consider "length bs < 7" | "7 \<le> length bs" "length bs < 15" | "15 \<le> length bs" "length bs < 17"
    | "17 \<le> length bs" "\<not> ?algo"
    | "17 \<le> length bs" "?algo" "HashIdToHashWithSha1Md5 (bs ! 16) = None"
    | h where "17 \<le> length bs" "length bs < 19" "?algo" "HashIdToHashWithSha1Md5 (bs ! 16) = Some h"
    | h where "19 \<le> length bs" "?algo" "HashIdToHashWithSha1Md5 (bs ! 16) = Some h"
    by (cases "HashIdToHashWithSha1Md5 (bs ! 16)") fastforce+
  then show ?thesis
  proof cases
    case 1
    then show ?thesis using assms parse_header_short2 [of bs sig] parse_header_error by simp
  next
    case 2
    then show ?thesis using assms parse_header_short3 [of bs sig] parse_header_error by simp
  next
    case 3
    then show ?thesis using assms parse_header_short4 [of bs sig] parse_header_error by simp
  next
    case 4
    then show ?thesis using assms parse_header_algo [of bs sig] parse_header_error [of sig bs] by simp
  next
    case 5
    then show ?thesis using assms parse_header_hash [of bs sig] parse_header_error [of sig bs] by simp
  next
    case 6
    then show ?thesis using assms parse_header_short5 [of bs h sig] parse_header_error by simp
  next
    case 7
    then show ?thesis
      using assms parse_header_ok [of bs h sig]
        parse_material_error [of "sig\<lparr>SigType := bs ! 2,
          CreationTime := time_Unix (uint (BigEndian_Uint32 (take 4 (drop 3 bs)))) 0,
          IssuerKeyId := BigEndian_Uint64 (take 8 (drop 7 bs)),
          PubKeyAlgo := bs ! 15, Hash := h, HashTag := (bs ! 17, bs ! 18)\<rparr>" "drop 19 bs"]
      by (auto simp add: parse_def)
  qed
qed

lemma parse_empty: "parse sig [] = (Some ErrUnexpectedEOF, sig, [])"
  by (simp add: parse_def parse_header_empty)

lemma parse_version:
  "bs \<noteq> [] \<Longrightarrow> bs ! 0 \<noteq> 2 \<Longrightarrow> bs ! 0 \<noteq> 3 \<Longrightarrow>
   parse sig bs = (Some (UnsupportedVersion (unat (bs ! 0))), sig, drop 1 bs)"
  by (simp add: parse_def parse_header_version UnsupportedVersion_def)

lemma parse_one_byte:
  "length bs = 1 \<Longrightarrow> bs ! 0 = 2 \<or> bs ! 0 = 3 \<Longrightarrow> parse sig bs = (Some ErrUnexpectedEOF, sig, [])"
  by (simp add: parse_def parse_header_short1)

lemma parse_hashed_length:
  "2 \<le> length bs \<Longrightarrow> bs ! 0 = 2 \<or> bs ! 0 = 3 \<Longrightarrow> bs ! 1 \<noteq> 5 \<Longrightarrow>
   parse sig bs = (Some (UnsupportedHashedLength (unat (bs ! 1))), sig, drop 2 bs)"
  by (simp add: parse_def parse_header_length UnsupportedHashedLength_def)

text \<open>A successful decode has passed every gate of the header.\<close>

lemma parse_success_header:
  assumes "fst (parse sig bs) = None"
  shows "19 \<le> length bs \<and> (bs ! 0 = 2 \<or> bs ! 0 = 3) \<and> bs ! 1 = 5 \<and>
         (bs ! 15 = PubKeyAlgoRSA \<or> bs ! 15 = PubKeyAlgoRSASignOnly \<or> bs ! 15 = PubKeyAlgoDSA) \<and>
         (\<exists>h. HashIdToHashWithSha1Md5 (bs ! 16) = Some h)"
proof -
  have "length bs = 0 \<or> length bs = 1 \<or> 2 \<le> length bs"
    by linarith
  then have len: "bs = [] \<or> length bs = 1 \<or> 2 \<le> length bs"
    by simp
  have ne: "bs \<noteq> []" if "length bs = 1 \<or> 2 \<le> length bs"
    using that by auto
  have ne': "bs \<noteq> []"
    using assms parse_empty [of sig] by auto
  have "bs ! 0 = 2 \<or> bs ! 0 = 3"
  proof (rule ccontr)
    assume "\<not> (bs ! 0 = 2 \<or> bs ! 0 = 3)"
    with ne' have "fst (parse sig bs) = Some (UnsupportedVersion (unat (bs ! 0)))"
      by (simp add: parse_version)
    with assms show False by simp
  qed
  with ne' have v: "bs \<noteq> [] \<and> (bs ! 0 = 2 \<or> bs ! 0 = 3)"
    by simp
  then have l2: "2 \<le> length bs"
    using assms len parse_one_byte [of bs sig] by auto
  have l5: "bs ! 1 = 5"
    using assms v l2 parse_hashed_length [of bs sig] by (cases "bs ! 1 = 5") auto
  have e: "\<not> (length bs < 7) \<and> \<not> (7 \<le> length bs \<and> length bs < 15) \<and>
           \<not> (15 \<le> length bs \<and> length bs < 17)"
    using assms v l2 l5 parse_header_short2 [of bs sig] parse_header_short3 [of bs sig]
      parse_header_short4 [of bs sig] parse_header_error [of sig bs ErrUnexpectedEOF]
    by auto
  then have l17: "17 \<le> length bs" by linarith
  have algo: "bs ! 15 = PubKeyAlgoRSA \<or> bs ! 15 = PubKeyAlgoRSASignOnly \<or> bs ! 15 = PubKeyAlgoDSA"
  proof (rule ccontr)
    assume "\<not> ?thesis"
    with v l5 l17 have "fst (parse_header sig bs) =
        Some (UnsupportedError (''public key algorithm '' @ Itoa (unat (bs ! 15))))"
      by (simp add: parse_header_algo)
    with assms show False
      using parse_header_error by fastforce
  qed
  have hash: "\<exists>h. HashIdToHashWithSha1Md5 (bs ! 16) = Some h"
  proof (rule ccontr)
    assume "\<not> ?thesis"
    then have "HashIdToHashWithSha1Md5 (bs ! 16) = None"
      by simp
    with v l5 l17 algo have "fst (parse_header sig bs) =
        Some (UnsupportedError (''hash function '' @ Itoa (unat (bs ! 16))))"
      by (simp add: parse_header_hash)
    with assms show False
      using parse_header_error by fastforce
  qed
  then obtain h where h: "HashIdToHashWithSha1Md5 (bs ! 16) = Some h" ..
  have "\<not> length bs < 19"
    using assms v l5 l17 algo h parse_header_short5 [of bs h sig]
      parse_header_error [of sig bs ErrUnexpectedEOF]
    by auto
  with v l5 algo hash show ?thesis by simp
qed

lemma parse_material_short:
  assumes "parse_material s r = (None, s', r')" and "k < length r - length r'"
      and "PubKeyAlgo s2 = PubKeyAlgo s"
  shows "fst (parse_material s2 (take k r)) = Some ErrUnexpectedEOF"
proof -
  consider "PubKeyAlgo s = PubKeyAlgoRSA \<or> PubKeyAlgo s = PubKeyAlgoRSASignOnly"
    | "PubKeyAlgo s \<noteq> PubKeyAlgoRSA" "PubKeyAlgo s \<noteq> PubKeyAlgoRSASignOnly"
      "PubKeyAlgo s = PubKeyAlgoDSA"
    using assms(1) by (auto simp add: parse_material_def split: if_splits)
  then show ?thesis
  proof cases
    case 1
    obtain e m r1 where m: "MPI_ReadFrom new_MPI r = (e, m, r1)"
      by (cases "MPI_ReadFrom new_MPI r") auto
    with 1 assms(1) have "e = None" "r1 = r'"
      by (auto simp add: parse_material_def)
    with m assms(2) have "fst (MPI_ReadFrom new_MPI (take k r)) = Some ErrUnexpectedEOF"
      using MPI_ReadFrom_short by blast
    with 1 assms(3) show ?thesis
      by (cases "MPI_ReadFrom new_MPI (take k r)") (auto simp add: parse_material_def)
  next
    case 2
    obtain e m r1 where m: "MPI_ReadFrom new_MPI r = (e, m, r1)"
      by (cases "MPI_ReadFrom new_MPI r") auto
    with 2 assms(1) have e: "e = None"
      by (cases e) (auto simp add: parse_material_def)
    obtain e2 m2 r2 where m2: "MPI_ReadFrom new_MPI r1 = (e2, m2, r2)"
      by (cases "MPI_ReadFrom new_MPI r1") auto
    with 2 m e assms(1) have e2: "e2 = None" "r2 = r'"
      by (auto simp add: parse_material_def)
    have le: "length r2 \<le> length r1" "length r1 \<le> length r"
      using m m2 MPI_ReadFrom_length by blast+
    show ?thesis
    proof (cases "k < length r - length r1")
      case True
      with m e have "fst (MPI_ReadFrom new_MPI (take k r)) = Some ErrUnexpectedEOF"
        using MPI_ReadFrom_short by blast
      with 2 assms(3) show ?thesis
        by (cases "MPI_ReadFrom new_MPI (take k r)") (auto simp add: parse_material_def)
    next
      case False
      then have "length r - length r1 \<le> k" by simp
      with m e have first: "MPI_ReadFrom new_MPI (take k r) =
          (None, m, take (k - (length r - length r1)) r1)"
        using MPI_ReadFrom_take by blast
      have "k < length r - length r2"
        using assms(2) e2 by simp
      with False le have "k - (length r - length r1) < length r1 - length r2"
        by linarith
      with m2 e2 have "fst (MPI_ReadFrom new_MPI (take (k - (length r - length r1)) r1)) =
          Some ErrUnexpectedEOF"
        using MPI_ReadFrom_short by blast
      with 2 assms(3) first show ?thesis
        by (cases "MPI_ReadFrom new_MPI (take (k - (length r - length r1)) r1)")
          (auto simp add: parse_material_def)
    qed
  qed
qed

subsection \<open>Serialize\<close>

lemmas Serialize_unfold = Serialize_def Buffer_Write_def Field_Bytes_def Field_EncodedBytes_def
  MPI_Bytes_def

lemma Serialize_Buffer_prefix:
  "\<exists>err rest. Serialize Buffer_Write sig w =
      (err, w @ SigType sig # BigEndian_PutUint32 (word_of_int (Unix (CreationTime sig))) @ rest)"
  by (auto simp add: Serialize_unfold split: option.splits)

lemma Serialize_time:
  "Serialize Write (sig\<lparr>CreationTime := \<lparr>sec = s, nsec = n\<rparr>\<rparr>) w =
   Serialize Write (sig\<lparr>CreationTime := \<lparr>sec = s mod 2 ^ 32, nsec = 0\<rparr>\<rparr>) w"
proof -
  have "(word_of_int s :: 32 word) = word_of_int (s mod 2 ^ 32)"
    by (simp add: word_of_int_eq_iff take_bit_eq_mod)
  then show ?thesis by (simp add: Serialize_def Unix_def cong: prod.case_cong option.case_cong sum.case_cong if_cong)
qed

lemma Serialize_RSA:
  assumes "HashToHashIdWithSha1Md5 (Hash sig) = Some hashId"
      and "PubKeyAlgo sig = PubKeyAlgoRSA \<or> PubKeyAlgo sig = PubKeyAlgoRSASignOnly"
      and "RSASignature sig = Some m" and "bytes m = Some bs"
  shows "Serialize Buffer_Write sig w =
     (None,
      w @ SigType sig # BigEndian_PutUint32 (word_of_int (Unix (CreationTime sig))) @
          BigEndian_PutUint64 (IssuerKeyId sig) @
          [PubKeyAlgo sig, hashId, fst (HashTag sig), snd (HashTag sig)] @
          MPI_EncodedBytes m)"
  using assms by (auto simp add: Serialize_unfold)

lemma Serialize_nil_RSA_slot:
  assumes "HashToHashIdWithSha1Md5 (Hash sig) = Some hashId" and "RSASignature sig = None"
  shows "fst (Serialize Buffer_Write sig w) = Some nil_dereference"
  using assms by (auto simp add: Serialize_unfold)

lemma parse_Serialize_RSA:
  assumes hash: "HashToHashIdWithSha1Md5 (Hash sig) = Some hashId"
      and algo: "PubKeyAlgo sig = PubKeyAlgoRSA \<or> PubKeyAlgo sig = PubKeyAlgoRSASignOnly"
      and rsa: "RSASignature sig = Some m" and wf: "well_formed_MPI m"
      and dsa: "DSASigR sig = None" "DSASigS sig = None"
      and v: "v = 2 \<or> v = 3"
  shows "\<exists>out. Serialize Buffer_Write sig [] = (None, out) \<and>
           parse new_SignatureV3 (v # 5 # out @ rest) =
             (None, sig\<lparr>CreationTime := \<lparr>sec = Unix (CreationTime sig) mod 2 ^ 32, nsec = 0\<rparr>\<rparr>,
              rest)"
proof -
  obtain bs where bs: "bytes m = Some bs"
    using wf by (auto simp add: well_formed_MPI_def split: option.splits)
  define out where "out = SigType sig # BigEndian_PutUint32 (word_of_int (Unix (CreationTime sig))) @
          BigEndian_PutUint64 (IssuerKeyId sig) @
          [PubKeyAlgo sig, hashId, fst (HashTag sig), snd (HashTag sig)] @
          MPI_EncodedBytes m"
  have s: "Serialize Buffer_Write sig [] = (None, out)"
    using Serialize_RSA [OF hash algo rsa bs, of "[]"] by (simp add: out_def)
  let ?bs = "v # 5 # out @ rest"
  have h: "HashIdToHashWithSha1Md5 (?bs ! 16) = Some (Hash sig)"
    using hash_table_decode [OF hash]
    by (simp add: out_def BigEndian_PutUint32_def BigEndian_PutUint64_def)
  have hdr: "parse_header new_SignatureV3 ?bs =
     (None,
      new_SignatureV3\<lparr>SigType := ?bs ! 2,
          CreationTime := time_Unix (uint (BigEndian_Uint32 (take 4 (drop 3 ?bs)))) 0,
          IssuerKeyId := BigEndian_Uint64 (take 8 (drop 7 ?bs)),
          PubKeyAlgo := ?bs ! 15, Hash := Hash sig, HashTag := (?bs ! 17, ?bs ! 18)\<rparr>,
      drop 19 ?bs)"
    using v algo h
    by (intro parse_header_ok)
      (auto simp add: out_def BigEndian_PutUint32_def BigEndian_PutUint64_def)
  have t: "take 4 (drop 3 ?bs) = BigEndian_PutUint32 (word_of_int (Unix (CreationTime sig)))"
    by (simp add: out_def BigEndian_PutUint32_def)
  have k: "take 8 (drop 7 ?bs) = BigEndian_PutUint64 (IssuerKeyId sig)"
    by (simp add: out_def BigEndian_PutUint32_def BigEndian_PutUint64_def)
  have d: "drop 19 ?bs = MPI_EncodedBytes m @ rest"
    by (simp add: out_def BigEndian_PutUint32_def BigEndian_PutUint64_def)
  have f: "?bs ! 2 = SigType sig" "?bs ! 15 = PubKeyAlgo sig"
    "(?bs ! 17, ?bs ! 18) = HashTag sig"
    by (simp_all add: out_def BigEndian_PutUint32_def BigEndian_PutUint64_def)
  have "parse new_SignatureV3 ?bs =
      (None, sig\<lparr>CreationTime := \<lparr>sec = Unix (CreationTime sig) mod 2 ^ 32, nsec = 0\<rparr>\<rparr>, rest)"
    unfolding parse_def hdr t k d f
    using algo rsa dsa
    by (cases sig)
      (auto simp add: parse_material_def MPI_ReadFrom_EncodedBytes [OF wf] Uint32_PutUint32
        Uint64_PutUint64 uint_word_of_int time_Unix_def new_SignatureV3_def)
  with s show ?thesis by blast
qed

lemma Serialize_parse_RSA:
  assumes ok: "parse sig0 bs = (None, sig, rest)"
      and rsa: "PubKeyAlgo sig = PubKeyAlgoRSA \<or> PubKeyAlgo sig = PubKeyAlgoRSASignOnly"
  shows "\<exists>out. Serialize Buffer_Write sig [] = (None, out) \<and> drop 2 bs = out @ rest"
proof -
  from ok have "fst (parse sig0 bs) = None" by simp
  from parse_success_header [OF this] obtain h where
    len: "19 \<le> length bs" and v: "bs ! 0 = 2 \<or> bs ! 0 = 3" and l5: "bs ! 1 = 5" and
    algo: "bs ! 15 = PubKeyAlgoRSA \<or> bs ! 15 = PubKeyAlgoRSASignOnly \<or> bs ! 15 = PubKeyAlgoDSA" and
    h: "HashIdToHashWithSha1Md5 (bs ! 16) = Some h"
    by blast
  define hdr where "hdr = sig0\<lparr>SigType := bs ! 2,
          CreationTime := time_Unix (uint (BigEndian_Uint32 (take 4 (drop 3 bs)))) 0,
          IssuerKeyId := BigEndian_Uint64 (take 8 (drop 7 bs)),
          PubKeyAlgo := bs ! 15, Hash := h, HashTag := (bs ! 17, bs ! 18)\<rparr>"
  have "parse_header sig0 bs = (None, hdr, drop 19 bs)"
    unfolding hdr_def using len v l5 algo h by (rule parse_header_ok)
  with ok have m: "parse_material hdr (drop 19 bs) = (None, sig, rest)"
    by (simp add: parse_def)
  obtain e1 m1 r1 where r1: "MPI_ReadFrom new_MPI (drop 19 bs) = (e1, m1, r1)"
    by (cases "MPI_ReadFrom new_MPI (drop 19 bs)") auto
  have pk: "PubKeyAlgo sig = PubKeyAlgo hdr"
    using m r1 by (auto simp add: parse_material_def split: if_splits prod.splits option.splits)
  with rsa m r1 have e1: "e1 = None" "r1 = rest" and sig: "sig = hdr\<lparr>RSASignature := Some m1\<rparr>"
    by (auto simp add: parse_material_def)
  from r1 e1 have enc: "MPI_EncodedBytes m1 @ rest = drop 19 bs"
    using MPI_EncodedBytes_ReadFrom by blast
  from r1 e1 obtain mb where mb: "bytes m1 = Some mb"
    using MPI_ReadFrom_well_formed [of new_MPI "drop 19 bs" m1 rest]
    by (auto simp add: well_formed_MPI_def split: option.splits)
  have hid: "HashToHashIdWithSha1Md5 (Hash sig) = Some (bs ! 16)"
    using hash_table_encode [OF h] by (simp add: sig hdr_def)
  have l4: "length (take 4 (drop 3 bs)) = 4" and l8: "length (take 8 (drop 7 bs)) = 8"
    using len by simp_all
  have "Serialize Buffer_Write sig [] =
     (None,
      [] @ SigType sig # BigEndian_PutUint32 (word_of_int (Unix (CreationTime sig))) @
          BigEndian_PutUint64 (IssuerKeyId sig) @
          [PubKeyAlgo sig, bs ! 16, fst (HashTag sig), snd (HashTag sig)] @
          MPI_EncodedBytes m1)"
    using hid rsa by (rule Serialize_RSA) (simp_all add: sig mb)
  also have "\<dots> = (None, bs ! 2 # take 4 (drop 3 bs) @ take 8 (drop 7 bs) @
      [bs ! 15, bs ! 16, bs ! 17, bs ! 18] @ MPI_EncodedBytes m1)"
    by (simp add: sig hdr_def Unix_def time_Unix_def PutUint32_Uint32_list [OF l4]
        PutUint64_Uint64_list [OF l8])
  finally have "Serialize Buffer_Write sig [] = (None, bs ! 2 # take 4 (drop 3 bs) @
      take 8 (drop 7 bs) @ [bs ! 15, bs ! 16, bs ! 17, bs ! 18] @ MPI_EncodedBytes m1)" .
  moreover have "drop 2 bs = (bs ! 2 # take 4 (drop 3 bs) @
      take 8 (drop 7 bs) @ [bs ! 15, bs ! 16, bs ! 17, bs ! 18] @ MPI_EncodedBytes m1) @ rest"
    using header_layout [OF len] enc by simp
  ultimately show ?thesis by blast
qed

lemma Serialize_DSA:
  assumes "HashToHashIdWithSha1Md5 (Hash sig) = Some hashId"
      and "PubKeyAlgo sig = PubKeyAlgoDSA"
      and "RSASignature sig = Some m0"
      and "DSASigR sig = Some r" and "bytes r = Some rb" and "DSASigS sig = Some s"
  shows "Serialize Buffer_Write sig w =
     (None,
      w @ SigType sig # BigEndian_PutUint32 (word_of_int (Unix (CreationTime sig))) @
          BigEndian_PutUint64 (IssuerKeyId sig) @
          [PubKeyAlgo sig, hashId, fst (HashTag sig), snd (HashTag sig)] @
          MPI_EncodedBytes r @ MPI_EncodedBytes s)"
  using assms by (auto simp add: Serialize_unfold PubKeyAlgo_defs)

lemma parse_Serialize_DSA:
  assumes hash: "HashToHashIdWithSha1Md5 (Hash sig) = Some hashId"
      and algo: "PubKeyAlgo sig = PubKeyAlgoDSA"
      and rsa: "RSASignature sig = Some m0"
      and r: "DSASigR sig = Some r" "well_formed_MPI r"
      and s: "DSASigS sig = Some s" "well_formed_MPI s"
      and v: "v = 2 \<or> v = 3"
  shows "\<exists>out. Serialize Buffer_Write sig [] = (None, out) \<and>
           parse new_SignatureV3 (v # 5 # out @ rest) =
             (None,
              sig\<lparr>CreationTime := \<lparr>sec = Unix (CreationTime sig) mod 2 ^ 32, nsec = 0\<rparr>,
                  RSASignature := None\<rparr>,
              rest)"
proof -
  obtain rb where rb: "bytes r = Some rb"
    using r(2) by (auto simp add: well_formed_MPI_def split: option.splits)
  define out where "out = SigType sig # BigEndian_PutUint32 (word_of_int (Unix (CreationTime sig))) @
          BigEndian_PutUint64 (IssuerKeyId sig) @
          [PubKeyAlgo sig, hashId, fst (HashTag sig), snd (HashTag sig)] @
          MPI_EncodedBytes r @ MPI_EncodedBytes s"
  have ser: "Serialize Buffer_Write sig [] = (None, out)"
    using Serialize_DSA [OF hash algo rsa r(1) rb s(1), of "[]"] by (simp add: out_def)
  let ?bs = "v # 5 # out @ rest"
  have h: "HashIdToHashWithSha1Md5 (?bs ! 16) = Some (Hash sig)"
    using hash_table_decode [OF hash]
    by (simp add: out_def BigEndian_PutUint32_def BigEndian_PutUint64_def)
  have hdr: "parse_header new_SignatureV3 ?bs =
     (None,
      new_SignatureV3\<lparr>SigType := ?bs ! 2,
          CreationTime := time_Unix (uint (BigEndian_Uint32 (take 4 (drop 3 ?bs)))) 0,
          IssuerKeyId := BigEndian_Uint64 (take 8 (drop 7 ?bs)),
          PubKeyAlgo := ?bs ! 15, Hash := Hash sig, HashTag := (?bs ! 17, ?bs ! 18)\<rparr>,
      drop 19 ?bs)"
    using v algo h
    by (intro parse_header_ok)
      (auto simp add: out_def BigEndian_PutUint32_def BigEndian_PutUint64_def)
  have t: "take 4 (drop 3 ?bs) = BigEndian_PutUint32 (word_of_int (Unix (CreationTime sig)))"
    by (simp add: out_def BigEndian_PutUint32_def)
  have k: "take 8 (drop 7 ?bs) = BigEndian_PutUint64 (IssuerKeyId sig)"
    by (simp add: out_def BigEndian_PutUint32_def BigEndian_PutUint64_def)
  have d: "drop 19 ?bs = MPI_EncodedBytes r @ MPI_EncodedBytes s @ rest"
    by (simp add: out_def BigEndian_PutUint32_def BigEndian_PutUint64_def)
  have f: "?bs ! 2 = SigType sig" "?bs ! 15 = PubKeyAlgo sig"
    "(?bs ! 17, ?bs ! 18) = HashTag sig"
    by (simp_all add: out_def BigEndian_PutUint32_def BigEndian_PutUint64_def)
  have "parse new_SignatureV3 ?bs =
      (None,
       sig\<lparr>CreationTime := \<lparr>sec = Unix (CreationTime sig) mod 2 ^ 32, nsec = 0\<rparr>,
           RSASignature := None\<rparr>,
       rest)"
    unfolding parse_def hdr t k d f
    using algo r(1) s(1)
    by (cases sig)
      (auto simp add: parse_material_def MPI_ReadFrom_EncodedBytes [OF r(2)]
        MPI_ReadFrom_EncodedBytes [OF s(2)] Uint32_PutUint32
        Uint64_PutUint64 uint_word_of_int time_Unix_def new_SignatureV3_def PubKeyAlgo_defs)
  with ser show ?thesis by blast
qed

text \<open>
  A record that \<open>parse\<close> has decoded from a DSA packet into a fresh record has no RSA
  integer: its RSA slot is nil. \<open>Serialize\<close> calls \<^verbatim>\<open>Bytes\<close> on that slot first
  (line 139), so serializing such a record ends in the nil dereference, after the header
  is written.
\<close>

lemma Serialize_parse_DSA_panics:
  assumes "parse sig0 bs = (None, sig, rest)" and "RSASignature sig0 = None"
      and "PubKeyAlgo sig = PubKeyAlgoDSA"
  shows "fst (Serialize Buffer_Write sig w) = Some nil_dereference"
proof -
  from assms(1) have "fst (parse sig0 bs) = None" by simp
  from parse_success_header [OF this] obtain h where
    len: "19 \<le> length bs" and v: "bs ! 0 = 2 \<or> bs ! 0 = 3" and l5: "bs ! 1 = 5" and
    algo: "bs ! 15 = PubKeyAlgoRSA \<or> bs ! 15 = PubKeyAlgoRSASignOnly \<or> bs ! 15 = PubKeyAlgoDSA" and
    h: "HashIdToHashWithSha1Md5 (bs ! 16) = Some h"
    by blast
  from parse_header_ok [OF len v l5 algo h, of sig0] assms(1)
  have m: "parse_material (sig0\<lparr>SigType := bs ! 2,
          CreationTime := time_Unix (uint (BigEndian_Uint32 (take 4 (drop 3 bs)))) 0,
          IssuerKeyId := BigEndian_Uint64 (take 8 (drop 7 bs)),
          PubKeyAlgo := bs ! 15, Hash := h, HashTag := (bs ! 17, bs ! 18)\<rparr>) (drop 19 bs) =
        (None, sig, rest)"
    by (simp add: parse_def)
  then have "RSASignature sig = None \<and> Hash sig = h"
    using assms(2,3)
    by (auto simp add: parse_material_def PubKeyAlgo_defs split: if_splits prod.splits option.splits)
  then show ?thesis
    using hash_table_encode [OF h] Serialize_nil_RSA_slot [of sig "bs ! 16" w] by simp
qed

subsection \<open>The examples\<close>

lemma parse_example_packet:
  "parse new_SignatureV3 example_packet = (None, example_record, [])"
  by (simp add: example_packet_def example_record_def parse_unfold)

lemmas Serialize_eval =
  Serialize_unfold HashToHashIdWithSha1Md5_def HashById_def crypto_Hash_defs PubKeyAlgo_defs
  MPI_EncodedBytes_def BigEndian_PutUint32_def BigEndian_PutUint64_def Unix_def

lemma parse_example_DSA_packet:
  "parse new_SignatureV3 example_DSA_packet =
     (None,
      example_record
        \<lparr>PubKeyAlgo := 17, RSASignature := None,
         DSASigR := Some \<lparr>bytes = Some [0x7F], bitLength = 7\<rparr>,
         DSASigS := Some \<lparr>bytes = Some [1, 2], bitLength = 9\<rparr>\<rparr>,
      [])"
  by (simp add: example_DSA_packet_def example_record_def parse_unfold)

lemma Serialize_example_DSA_record:
  "Serialize Buffer_Write
     (example_record
        \<lparr>PubKeyAlgo := 17, RSASignature := None,
         DSASigR := Some \<lparr>bytes = Some [0x7F], bitLength = 7\<rparr>,
         DSASigS := Some \<lparr>bytes = Some [1, 2], bitLength = 9\<rparr>\<rparr>) [] =
     (Some nil_dereference, [0, 0x5F, 0, 0, 1, 1, 2, 3, 4, 5, 6, 7, 8, 17, 2, 0xAB, 0xCD])"
  by (simp add: example_record_def Serialize_eval)

lemma Serialize_example_record:
  "Serialize Buffer_Write example_record [] =
     (None, [0, 0x5F, 0, 0, 1, 1, 2, 3, 4, 5, 6, 7, 8, 1, 2, 0xAB, 0xCD, 0, 7, 0x7F])"
  by (simp add: example_record_def Serialize_eval)

section \<open>The claims\<close>

subsection \<open>C1: encoding and then decoding\<close>

text \<open>
  Claim C1 says that decoding what \<open>Serialize\<close> has written gives the record back, up
  to the creation time's fraction of a second, and that encoding the decoded worked
  example gives the example's octets back. As stated it fails: \<open>Serialize\<close> writes
  neither the version nor the hashed length, so \<open>parse\<close> reads the signature type as the
  version. For the worked example the decoded record is \<open>example_record\<close>; encoding it
  gives the example without its first two octets, and decoding that output fails on
  the version gate.
\<close>

theorem Serialize_output_not_parsed:
  "parse new_SignatureV3 example_packet = (None, example_record, []) \<and>
   Serialize Buffer_Write example_record [] =
     (None, [0, 0x5F, 0, 0, 1, 1, 2, 3, 4, 5, 6, 7, 8, 1, 2, 0xAB, 0xCD, 0, 7, 0x7F]) \<and>
   [0, 0x5F, 0, 0, 1, 1, 2, 3, 4, 5, 6, 7, 8, 1, 2, 0xAB, 0xCD, 0, 7, 0x7F] \<noteq> example_packet \<and>
   parse new_SignatureV3
     [0, 0x5F, 0, 0, 1, 1, 2, 3, 4, 5, 6, 7, 8, 1, 2, 0xAB, 0xCD, 0, 7, 0x7F] =
     (Some (UnsupportedVersion 0), new_SignatureV3,
      [0x5F, 0, 0, 1, 1, 2, 3, 4, 5, 6, 7, 8, 1, 2, 0xAB, 0xCD, 0, 7, 0x7F])"
proof (intro conjI)
  show "parse new_SignatureV3 example_packet = (None, example_record, [])"
    by (rule parse_example_packet)
  show "Serialize Buffer_Write example_record [] =
     (None, [0, 0x5F, 0, 0, 1, 1, 2, 3, 4, 5, 6, 7, 8, 1, 2, 0xAB, 0xCD, 0, 7, 0x7F])"
    by (rule Serialize_example_record)
  show "[0, 0x5F, 0, 0, 1, 1, 2, 3, 4, 5, 6, 7, 8, 1, 2, 0xAB, 0xCD, 0, 7, 0x7F] \<noteq> example_packet"
    by (simp add: example_packet_def)
  show "parse new_SignatureV3
     [0, 0x5F, 0, 0, 1, 1, 2, 3, 4, 5, 6, 7, 8, 1, 2, 0xAB, 0xCD, 0, 7, 0x7F] =
     (Some (UnsupportedVersion 0), new_SignatureV3,
      [0x5F, 0, 0, 1, 1, 2, 3, 4, 5, 6, 7, 8, 1, 2, 0xAB, 0xCD, 0, 7, 0x7F])"
    by (simp add: parse_version)
qed

text \<open>
  Claim C1 as amended. Take a record whose hash algorithm has a wire code and whose
  signature material is well-formed: with an RSA algorithm, the RSA integer is set and
  r and s are not; with DSA, r and s are set and the RSA slot holds some field (the
  slot on which \<open>Serialize\<close> calls \<^verbatim>\<open>Bytes\<close> first). Then \<open>Serialize\<close> to an empty
  buffer succeeds, and \<open>parse\<close>, called on a fresh record with a version octet (2 or
  3), the octet 5 and then that output, reads all of it and gives the record back, with
  the creation time in whole seconds modulo \<open>2 ^ 32\<close> and, for DSA, with the RSA slot
  unset. The other way round, when \<open>parse\<close> decodes a source into a record with an RSA
  algorithm, \<open>Serialize\<close> of that record writes the octets \<open>parse\<close> has read, from the
  third on.
\<close>

theorem Serialize_parse_roundtrip:
  "(HashToHashIdWithSha1Md5 (Hash sig) = Some hashId \<and>
    (PubKeyAlgo sig = PubKeyAlgoRSA \<or> PubKeyAlgo sig = PubKeyAlgoRSASignOnly) \<and>
    RSASignature sig = Some m \<and> well_formed_MPI m \<and>
    DSASigR sig = None \<and> DSASigS sig = None \<and> (v = 2 \<or> v = 3) \<longrightarrow>
    (\<exists>out. Serialize Buffer_Write sig [] = (None, out) \<and>
       parse new_SignatureV3 (v # 5 # out @ rest) =
         (None,
          sig\<lparr>CreationTime := \<lparr>sec = Unix (CreationTime sig) mod 2 ^ 32, nsec = 0\<rparr>\<rparr>,
          rest))) \<and>
   (HashToHashIdWithSha1Md5 (Hash sig) = Some hashId \<and> PubKeyAlgo sig = PubKeyAlgoDSA \<and>
    RSASignature sig = Some m \<and> DSASigR sig = Some r \<and> well_formed_MPI r \<and>
    DSASigS sig = Some s \<and> well_formed_MPI s \<and> (v = 2 \<or> v = 3) \<longrightarrow>
    (\<exists>out. Serialize Buffer_Write sig [] = (None, out) \<and>
       parse new_SignatureV3 (v # 5 # out @ rest) =
         (None,
          sig\<lparr>CreationTime := \<lparr>sec = Unix (CreationTime sig) mod 2 ^ 32, nsec = 0\<rparr>,
              RSASignature := None\<rparr>,
          rest))) \<and>
   (parse sig0 bs = (None, sig', rest') \<and>
    (PubKeyAlgo sig' = PubKeyAlgoRSA \<or> PubKeyAlgo sig' = PubKeyAlgoRSASignOnly) \<longrightarrow>
    (\<exists>out. Serialize Buffer_Write sig' [] = (None, out) \<and> drop 2 bs = out @ rest'))"
  using parse_Serialize_RSA [of sig hashId m v rest]
    parse_Serialize_DSA [of sig hashId m r s v rest]
    Serialize_parse_RSA [of sig0 bs sig' rest']
  by blast

theorem Serialize_parse_roundtrip_witness:
  "HashToHashIdWithSha1Md5 (Hash example_record) = Some 2 \<and>
   PubKeyAlgo example_record = PubKeyAlgoRSA \<and>
   RSASignature example_record = Some \<lparr>bytes = Some [0x7F], bitLength = 7\<rparr> \<and>
   well_formed_MPI \<lparr>bytes = Some [0x7F], bitLength = 7\<rparr> \<and>
   DSASigR example_record = None \<and> DSASigS example_record = None \<and>
   (\<exists>out. Serialize Buffer_Write example_record [] = (None, out) \<and>
      parse new_SignatureV3 (3 # 5 # out @ []) =
        (None,
         example_record
           \<lparr>CreationTime := \<lparr>sec = Unix (CreationTime example_record) mod 2 ^ 32, nsec = 0\<rparr>\<rparr>,
         [])) \<and>
   HashToHashIdWithSha1Md5 (Hash example_DSA_record) = Some 2 \<and>
   PubKeyAlgo example_DSA_record = PubKeyAlgoDSA \<and>
   RSASignature example_DSA_record = Some new_MPI \<and>
   DSASigR example_DSA_record = Some \<lparr>bytes = Some [0x7F], bitLength = 7\<rparr> \<and>
   DSASigS example_DSA_record = Some \<lparr>bytes = Some [1, 2], bitLength = 9\<rparr> \<and>
   well_formed_MPI \<lparr>bytes = Some [1, 2], bitLength = 9\<rparr> \<and>
   (\<exists>out. Serialize Buffer_Write example_DSA_record [] = (None, out) \<and>
      parse new_SignatureV3 (2 # 5 # out @ []) =
        (None,
         example_DSA_record
           \<lparr>CreationTime :=
              \<lparr>sec = Unix (CreationTime example_DSA_record) mod 2 ^ 32, nsec = 0\<rparr>,
            RSASignature := None\<rparr>,
         [])) \<and>
   parse new_SignatureV3 example_packet = (None, example_record, []) \<and>
   (\<exists>out. Serialize Buffer_Write example_record [] = (None, out) \<and>
      drop 2 example_packet = out @ [])"
proof -
  let ?a = "\<lparr>bytes = Some [0x7F], bitLength = 7 :: 16 word\<rparr>"
  let ?b = "\<lparr>bytes = Some [1, 2 :: byte], bitLength = 9 :: 16 word\<rparr>"
  have h: "HashToHashIdWithSha1Md5 (Hash example_record) = Some 2"
    by (simp add: example_record_def HashToHashIdWithSha1Md5_def HashById_def crypto_Hash_defs)
  have a: "PubKeyAlgo example_record = PubKeyAlgoRSA"
    by (simp add: example_record_def PubKeyAlgo_defs)
  have r: "RSASignature example_record = Some ?a"
    by (simp add: example_record_def)
  have w: "well_formed_MPI ?a" "well_formed_MPI ?b"
    by (simp_all add: well_formed_MPI_def)
  have d: "DSASigR example_record = None" "DSASigS example_record = None"
    by (simp_all add: example_record_def)
  have h': "HashToHashIdWithSha1Md5 (Hash example_DSA_record) = Some 2"
    by (simp add: example_DSA_record_def example_record_def HashToHashIdWithSha1Md5_def
        HashById_def crypto_Hash_defs)
  have a': "PubKeyAlgo example_DSA_record = PubKeyAlgoDSA"
    by (simp add: example_DSA_record_def PubKeyAlgo_defs)
  have r': "RSASignature example_DSA_record = Some new_MPI"
    "DSASigR example_DSA_record = Some ?a" "DSASigS example_DSA_record = Some ?b"
    by (simp_all add: example_DSA_record_def)
  have p: "parse new_SignatureV3 example_packet = (None, example_record, [])"
    by (rule parse_example_packet)
  note rsa =
    Serialize_parse_roundtrip [where sig = example_record and hashId = 2 and m = ?a
      and v = 3 and rest = "[]" and ?sig0.0 = new_SignatureV3 and bs = example_packet
      and sig' = example_record and rest' = "[]"]
  note dsa =
    Serialize_parse_roundtrip [where sig = example_DSA_record and hashId = 2 and m = new_MPI
      and r = ?a and s = ?b and v = 2 and rest = "[]"]
  from rsa h a r w d
  have 1: "\<exists>out. Serialize Buffer_Write example_record [] = (None, out) \<and>
      parse new_SignatureV3 (3 # 5 # out @ []) =
        (None,
         example_record
           \<lparr>CreationTime := \<lparr>sec = Unix (CreationTime example_record) mod 2 ^ 32, nsec = 0\<rparr>\<rparr>,
         [])"
    by blast
  from dsa h' a' r' w
  have 2: "\<exists>out. Serialize Buffer_Write example_DSA_record [] = (None, out) \<and>
      parse new_SignatureV3 (2 # 5 # out @ []) =
        (None,
         example_DSA_record
           \<lparr>CreationTime :=
              \<lparr>sec = Unix (CreationTime example_DSA_record) mod 2 ^ 32, nsec = 0\<rparr>,
            RSASignature := None\<rparr>,
         [])"
    by blast
  from rsa p a
  have 3: "\<exists>out. Serialize Buffer_Write example_record [] = (None, out) \<and>
      drop 2 example_packet = out @ []"
    by blast
  from h a r w(1) d 1 h' a' r' w(2) 2 p 3 show ?thesis
    by (intro conjI)
qed

subsection \<open>C2: what Serialize writes first\<close>

text \<open>
  Claim C2: for every record, \<open>Serialize\<close> writes no version octet and no hashed-length
  octet. Whatever the record is and however the call ends, what it has appended to the
  buffer starts with the signature type, followed by the four octets of the creation
  time: the octets at offsets 2 to 6 of the layout that \<open>parse\<close> reads.
\<close>

theorem Serialize_starts_with_SigType:
  "\<exists>err rest. Serialize Buffer_Write sig w =
      (err, w @ SigType sig # BigEndian_PutUint32 (word_of_int (Unix (CreationTime sig))) @ rest)"
  by (rule Serialize_Buffer_prefix)

subsection \<open>C3: a record without signature material\<close>

text \<open>
  Claim C3 says that a fresh record with no signature material always fails
  \<open>Serialize\<close> with the missing-material error, whatever its other fields are. As stated
  it fails: the hash algorithm is looked up before the material is checked, and the
  fresh record \<open>new_SignatureV3\<close>, whose hash algorithm is 0, fails with the
  unsupported-hash error after the first thirteen octets. (A sink that refuses a write
  ends the call with its own error in the same way.)
\<close>

theorem Serialize_fresh_record_unsupported_hash:
  "RSASignature new_SignatureV3 = None \<and> DSASigR new_SignatureV3 = None \<and>
   DSASigS new_SignatureV3 = None \<and>
   Serialize Buffer_Write new_SignatureV3 [] =
     (Some (UnsupportedError ''hash function unknown hash value 0''),
      [0, 0, 0, 0, 0, 0, 0, 0, 0, 0, 0, 0, 0]) \<and>
   UnsupportedError ''hash function unknown hash value 0'' \<noteq> MissingSignatureMaterial"
  by (simp add: Serialize_unfold new_SignatureV3_def HashToHashIdWithSha1Md5_def HashById_def
      crypto_Hash_defs Hash_String_def Itoa.simps BigEndian_PutUint32_def BigEndian_PutUint64_def
      Unix_def MissingSignatureMaterial_def)

text \<open>
  Claim C3 as amended. For every record whose hash algorithm has a wire code and whose
  RSA slot and DSA r slot each hold a field without octets, written to a sink that
  accepts the three writes of the header, \<open>Serialize\<close> fails with the missing-material
  error, whatever the signature type, creation time, key id, algorithm and hash tag
  are. The sink is then as the third write has left it: the seventeen octets of the
  header are written and nothing of the integers.
\<close>

theorem Serialize_missing_material:
  assumes "HashToHashIdWithSha1Md5 (Hash sig) = Some hashId"
      and "RSASignature sig = Some m1" and "bytes m1 = None"
      and "DSASigR sig = Some m2" and "bytes m2 = None"
      and "Write w (SigType sig # BigEndian_PutUint32 (word_of_int (Unix (CreationTime sig)))) =
             (None, w1)"
      and "Write w1 (BigEndian_PutUint64 (IssuerKeyId sig)) = (None, w2)"
      and "Write w2 [PubKeyAlgo sig, hashId, fst (HashTag sig), snd (HashTag sig)] = (None, w3)"
  shows "Serialize Write sig w = (Some MissingSignatureMaterial, w3)"
  using assms
  by (simp add: Serialize_def Field_Bytes_def MPI_Bytes_def MissingSignatureMaterial_def)

theorem Serialize_missing_material_witness:
  "HashToHashIdWithSha1Md5
     (Hash (example_record\<lparr>RSASignature := Some new_MPI, DSASigR := Some new_MPI\<rparr>)) = Some 2 \<and>
   bytes new_MPI = None \<and>
   Buffer_Write [] [0, 0x5F, 0, 0, 1] = (None, [0, 0x5F, 0, 0, 1]) \<and>
   Buffer_Write [0, 0x5F, 0, 0, 1] [1, 2, 3, 4, 5, 6, 7, 8] =
     (None, [0, 0x5F, 0, 0, 1, 1, 2, 3, 4, 5, 6, 7, 8]) \<and>
   Buffer_Write [0, 0x5F, 0, 0, 1, 1, 2, 3, 4, 5, 6, 7, 8] [1, 2, 0xAB, 0xCD] =
     (None, [0, 0x5F, 0, 0, 1, 1, 2, 3, 4, 5, 6, 7, 8, 1, 2, 0xAB, 0xCD]) \<and>
   Serialize Buffer_Write
     (example_record\<lparr>RSASignature := Some new_MPI, DSASigR := Some new_MPI\<rparr>) [] =
     (Some MissingSignatureMaterial,
      [0, 0x5F, 0, 0, 1, 1, 2, 3, 4, 5, 6, 7, 8, 1, 2, 0xAB, 0xCD])"
proof -
  let ?sig = "example_record\<lparr>RSASignature := Some new_MPI, DSASigR := Some new_MPI\<rparr>"
  have h: "HashToHashIdWithSha1Md5 (Hash ?sig) = Some 2"
    by (simp add: example_record_def HashToHashIdWithSha1Md5_def HashById_def crypto_Hash_defs)
  have b: "bytes new_MPI = None"
    by (simp add: new_MPI_def)
  have s: "RSASignature ?sig = Some new_MPI" "DSASigR ?sig = Some new_MPI"
    by simp_all
  have w1: "Buffer_Write []
      (SigType ?sig # BigEndian_PutUint32 (word_of_int (Unix (CreationTime ?sig)))) =
      (None, [0, 0x5F, 0, 0, 1])"
    by (simp add: Buffer_Write_def example_record_def BigEndian_PutUint32_def Unix_def)
  have w2: "Buffer_Write [0, 0x5F, 0, 0, 1] (BigEndian_PutUint64 (IssuerKeyId ?sig)) =
      (None, [0, 0x5F, 0, 0, 1, 1, 2, 3, 4, 5, 6, 7, 8])"
    by (simp add: Buffer_Write_def example_record_def BigEndian_PutUint64_def)
  have w3: "Buffer_Write [0, 0x5F, 0, 0, 1, 1, 2, 3, 4, 5, 6, 7, 8]
      [PubKeyAlgo ?sig, 2, fst (HashTag ?sig), snd (HashTag ?sig)] =
      (None, [0, 0x5F, 0, 0, 1, 1, 2, 3, 4, 5, 6, 7, 8, 1, 2, 0xAB, 0xCD])"
    by (simp add: Buffer_Write_def example_record_def)
  have bw: "Buffer_Write [] [0, 0x5F, 0, 0, 1] = (None, [0, 0x5F, 0, 0, 1])"
    "Buffer_Write [0, 0x5F, 0, 0, 1] [1, 2, 3, 4, 5, 6, 7, 8] =
       (None, [0, 0x5F, 0, 0, 1, 1, 2, 3, 4, 5, 6, 7, 8])"
    "Buffer_Write [0, 0x5F, 0, 0, 1, 1, 2, 3, 4, 5, 6, 7, 8] [1, 2, 0xAB, 0xCD] =
       (None, [0, 0x5F, 0, 0, 1, 1, 2, 3, 4, 5, 6, 7, 8, 1, 2, 0xAB, 0xCD])"
    by (simp_all add: Buffer_Write_def)
  from Serialize_missing_material [OF h s(1) b s(2) b w1 w2 w3] h b bw show ?thesis
    by (intro conjI)
qed

subsection \<open>C4: truncated sources\<close>

text \<open>
  Claim C4: a source that ends short of a field that decoding needs fails with the
  truncation error, never with a format error, and never succeeds. Whenever \<open>parse\<close>
  succeeds on a source, it fails with \<open>ErrUnexpectedEOF\<close> on every proper prefix of the
  octets it has read: on the source cut one octet short of any field, and on any
  shorter one.
\<close>

theorem parse_truncated:
  assumes ok: "parse sig bs = (None, sig', rest)" and k: "k < length bs - length rest"
  shows "fst (parse sig (take k bs)) = Some ErrUnexpectedEOF"
proof -
  let ?bs = "take k bs"
  from ok have "fst (parse sig bs) = None" by simp
  from parse_success_header [OF this] obtain h where
    len: "19 \<le> length bs" and v: "bs ! 0 = 2 \<or> bs ! 0 = 3" and l5: "bs ! 1 = 5" and
    algo: "bs ! 15 = PubKeyAlgoRSA \<or> bs ! 15 = PubKeyAlgoRSASignOnly \<or> bs ! 15 = PubKeyAlgoDSA" and
    h: "HashIdToHashWithSha1Md5 (bs ! 16) = Some h"
    by blast
  have lk: "length ?bs = k" using k by simp
  have nth: "?bs ! i = bs ! i" if "i < k" for i using that by simp
  consider "k = 0" | "k = 1" | "2 \<le> k" "k < 7" | "7 \<le> k" "k < 15" | "15 \<le> k" "k < 17"
    | "17 \<le> k" "k < 19" | "19 \<le> k"
    by linarith
  then show ?thesis
  proof cases
    case 1
    then show ?thesis by (simp add: parse_empty)
  next
    case 2
    then show ?thesis using v lk nth [of 0] by (simp add: parse_one_byte)
  next
    case 3
    then have "fst (parse_header sig ?bs) = Some ErrUnexpectedEOF"
      using v l5 lk nth [of 0] nth [of 1] parse_header_short2 [of ?bs sig] by simp
    then show ?thesis by (rule parse_header_error)
  next
    case 4
    then have "fst (parse_header sig ?bs) = Some ErrUnexpectedEOF"
      using v l5 lk nth [of 0] nth [of 1] parse_header_short3 [of ?bs sig] by simp
    then show ?thesis by (rule parse_header_error)
  next
    case 5
    then have "fst (parse_header sig ?bs) = Some ErrUnexpectedEOF"
      using v l5 lk nth [of 0] nth [of 1] parse_header_short4 [of ?bs sig] by simp
    then show ?thesis by (rule parse_header_error)
  next
    case 6
    then have "fst (parse_header sig ?bs) = Some ErrUnexpectedEOF"
      using v l5 algo h lk nth [of 0] nth [of 1] nth [of 15] nth [of 16]
        parse_header_short5 [of ?bs h sig] by simp
    then show ?thesis by (rule parse_header_error)
  next
    case 7
    define hdr where "hdr = sig\<lparr>SigType := bs ! 2,
          CreationTime := time_Unix (uint (BigEndian_Uint32 (take 4 (drop 3 bs)))) 0,
          IssuerKeyId := BigEndian_Uint64 (take 8 (drop 7 bs)),
          PubKeyAlgo := bs ! 15, Hash := h, HashTag := (bs ! 17, bs ! 18)\<rparr>"
    define hdr' where "hdr' = sig\<lparr>SigType := ?bs ! 2,
          CreationTime := time_Unix (uint (BigEndian_Uint32 (take 4 (drop 3 ?bs)))) 0,
          IssuerKeyId := BigEndian_Uint64 (take 8 (drop 7 ?bs)),
          PubKeyAlgo := ?bs ! 15, Hash := h, HashTag := (?bs ! 17, ?bs ! 18)\<rparr>"
    have "parse_header sig bs = (None, hdr, drop 19 bs)"
      unfolding hdr_def using len v l5 algo h by (rule parse_header_ok)
    with ok have m: "parse_material hdr (drop 19 bs) = (None, sig', rest)"
      by (simp add: parse_def)
    have "parse_header sig ?bs = (None, hdr', drop 19 ?bs)"
      unfolding hdr'_def
      using 7 v l5 algo h lk nth [of 0] nth [of 1] nth [of 15] nth [of 16]
      by (intro parse_header_ok) simp_all
    then have p: "parse sig ?bs = parse_material hdr' (take (k - 19) (drop 19 bs))"
      by (simp add: parse_def drop_take)
    have a: "PubKeyAlgo hdr' = PubKeyAlgo hdr"
      using 7 by (simp add: hdr_def hdr'_def)
    have "k - 19 < length (drop 19 bs) - length rest"
      using 7 k by simp
    from parse_material_short [OF m this a] p show ?thesis by simp
  qed
qed

theorem parse_truncated_witness:
  "parse new_SignatureV3 example_packet = (None, example_record, []) \<and>
   (21 :: nat) < length example_packet - length ([] :: byte list) \<and>
   fst (parse new_SignatureV3 (take 21 example_packet)) = Some ErrUnexpectedEOF \<and>
   fst (parse new_SignatureV3 (take 18 example_packet)) = Some ErrUnexpectedEOF \<and>
   fst (parse new_SignatureV3 (take 1 example_packet)) = Some ErrUnexpectedEOF"
proof -
  have p: "parse new_SignatureV3 example_packet = (None, example_record, [])"
    by (rule parse_example_packet)
  have l: "(21 :: nat) < length example_packet - length ([] :: byte list)"
    "(18 :: nat) < length example_packet - length ([] :: byte list)"
    "(1 :: nat) < length example_packet - length ([] :: byte list)"
    by (simp_all add: example_packet_def)
  from p l parse_truncated [OF p l(1)] parse_truncated [OF p l(2)] parse_truncated [OF p l(3)]
  show ?thesis by simp
qed

subsection \<open>C5: the algorithm gate\<close>

text \<open>
  Claim C5: a public-key algorithm code other than RSA (sign and encrypt), RSA (sign
  only) and DSA fails decoding with the unsupported-algorithm error, and decoding does
  not touch the signature material then. The statement is about a source on which
  \<open>parse\<close> reaches the gate: the version is 2 or 3, the hashed length is 5, and the two
  algorithm octets, which are read together, are there. The source that is left starts
  at offset 17, so the hash tag and the integers are unread, and the three slots of the
  record are as they were.
\<close>

theorem parse_algorithm_gate:
  assumes "17 \<le> length bs" and "bs ! 0 = 2 \<or> bs ! 0 = 3" and "bs ! 1 = 5"
      and "bs ! 15 \<noteq> PubKeyAlgoRSA" and "bs ! 15 \<noteq> PubKeyAlgoRSASignOnly"
      and "bs ! 15 \<noteq> PubKeyAlgoDSA"
  shows "\<exists>sig'. parse sig bs =
             (Some (UnsupportedPublicKeyAlgorithm (unat (bs ! 15))), sig', drop 17 bs) \<and>
           RSASignature sig' = RSASignature sig \<and> DSASigR sig' = DSASigR sig \<and>
           DSASigS sig' = DSASigS sig"
  using assms by (simp add: parse_def parse_header_algo UnsupportedPublicKeyAlgorithm_def)

theorem parse_algorithm_gate_witness:
  "(17 :: nat) \<le> length (example_packet[15 := 0]) \<and>
   example_packet[15 := 0] ! 0 = 3 \<and> example_packet[15 := 0] ! 1 = 5 \<and>
   example_packet[15 := 0] ! 15 = 0 \<and>
   (\<exists>sig'. parse new_SignatureV3 (example_packet[15 := 0]) =
      (Some (UnsupportedPublicKeyAlgorithm 0), sig', [0xAB, 0xCD, 0, 7, 0x7F]) \<and>
      RSASignature sig' = None \<and> DSASigR sig' = None \<and> DSASigS sig' = None)"
proof -
  let ?bs = "example_packet[15 := 0]"
  have f: "17 \<le> length ?bs" "?bs ! 0 = 2 \<or> ?bs ! 0 = 3" "?bs ! 1 = 5"
    "?bs ! 15 \<noteq> PubKeyAlgoRSA" "?bs ! 15 \<noteq> PubKeyAlgoRSASignOnly" "?bs ! 15 \<noteq> PubKeyAlgoDSA"
    by (simp_all add: example_packet_def PubKeyAlgo_defs)
  have g: "?bs ! 0 = 3" "?bs ! 15 = 0" "drop 17 ?bs = [0xAB, 0xCD, 0, 7, 0x7F]"
    by (simp_all add: example_packet_def)
  from parse_algorithm_gate [OF f, of new_SignatureV3] f g show ?thesis
    by (simp add: new_SignatureV3_def)
qed

subsection \<open>C6: the version and hashed-length gates\<close>

text \<open>
  Claim C6: decoding fails with the unsupported-version error exactly when there is a
  first octet and it is neither 2 nor 3; it fails with the unsupported-hashed-length
  error exactly when the version was accepted and the second octet is there and is not
  5; and the versions 2 and 3 are treated alike.
\<close>

theorem parse_version_and_length_gates:
  "((\<exists>n. fst (parse sig bs) = Some (UnsupportedVersion n)) \<longleftrightarrow>
      bs \<noteq> [] \<and> bs ! 0 \<noteq> 2 \<and> bs ! 0 \<noteq> 3) \<and>
   ((\<exists>n. fst (parse sig bs) = Some (UnsupportedHashedLength n)) \<longleftrightarrow>
      2 \<le> length bs \<and> (bs ! 0 = 2 \<or> bs ! 0 = 3) \<and> bs ! 1 \<noteq> 5) \<and>
   parse sig (2 # rest) = parse sig (3 # rest)"
proof (intro conjI)
  have "length bs = 0 \<or> length bs = 1 \<or> 2 \<le> length bs"
    by linarith
  then have len: "bs = [] \<or> length bs = 1 \<or> 2 \<le> length bs"
    by simp
  have "bs \<noteq> []" if "length bs = 1 \<or> 2 \<le> length bs"
    using that by auto
  with len consider "bs = []" | "bs \<noteq> []" "bs ! 0 \<noteq> 2" "bs ! 0 \<noteq> 3"
    | "length bs = 1" "bs ! 0 = 2 \<or> bs ! 0 = 3"
    | "2 \<le> length bs" "bs ! 0 = 2 \<or> bs ! 0 = 3" "bs ! 1 \<noteq> 5"
    | "2 \<le> length bs" "bs ! 0 = 2 \<or> bs ! 0 = 3" "bs ! 1 = 5"
    by blast
  then have "((\<exists>n. fst (parse sig bs) = Some (UnsupportedVersion n)) \<longleftrightarrow>
      bs \<noteq> [] \<and> bs ! 0 \<noteq> 2 \<and> bs ! 0 \<noteq> 3) \<and>
   ((\<exists>n. fst (parse sig bs) = Some (UnsupportedHashedLength n)) \<longleftrightarrow>
      2 \<le> length bs \<and> (bs ! 0 = 2 \<or> bs ! 0 = 3) \<and> bs ! 1 \<noteq> 5)"
  proof cases
    case 1
    then show ?thesis
      by (simp add: parse_empty UnsupportedVersion_def UnsupportedHashedLength_def)
  next
    case 2
    then show ?thesis
      by (auto simp add: parse_version UnsupportedVersion_def UnsupportedHashedLength_def)
  next
    case 3
    then show ?thesis
      by (auto simp add: parse_one_byte UnsupportedVersion_def UnsupportedHashedLength_def)
  next
    case 4
    then show ?thesis
      by (auto simp add: parse_hashed_length UnsupportedVersion_def UnsupportedHashedLength_def)
  next
    case 5
    then show ?thesis
      using parse_after_gates [of bs sig]
      by (auto simp add: UnsupportedVersion_def UnsupportedHashedLength_def)
  qed
  then show "(\<exists>n. fst (parse sig bs) = Some (UnsupportedVersion n)) \<longleftrightarrow>
      bs \<noteq> [] \<and> bs ! 0 \<noteq> 2 \<and> bs ! 0 \<noteq> 3"
    and "(\<exists>n. fst (parse sig bs) = Some (UnsupportedHashedLength n)) \<longleftrightarrow>
      2 \<le> length bs \<and> (bs ! 0 = 2 \<or> bs ! 0 = 3) \<and> bs ! 1 \<noteq> 5"
    by blast+
  show "parse sig (2 # rest) = parse sig (3 # rest)"
    by (simp add: parse_def parse_header_def readFull_def io_ReadFull_def)
qed

theorem parse_version_and_length_gates_witness:
  "(\<exists>n. fst (parse new_SignatureV3 [1, 5, 0]) = Some (UnsupportedVersion n)) \<and>
   (\<exists>n. fst (parse new_SignatureV3 [4, 5, 0]) = Some (UnsupportedVersion n)) \<and>
   (\<exists>n. fst (parse new_SignatureV3 [255, 5, 0]) = Some (UnsupportedVersion n)) \<and>
   (\<exists>n. fst (parse new_SignatureV3 [3, 4, 0]) = Some (UnsupportedHashedLength n)) \<and>
   (\<exists>n. fst (parse new_SignatureV3 [2, 6, 0]) = Some (UnsupportedHashedLength n)) \<and>
   \<not> (\<exists>n. fst (parse new_SignatureV3 example_packet) = Some (UnsupportedVersion n)) \<and>
   \<not> (\<exists>n. fst (parse new_SignatureV3 example_packet) = Some (UnsupportedHashedLength n))"
  using parse_version_and_length_gates [of new_SignatureV3 "[1, 5, 0]"]
    parse_version_and_length_gates [of new_SignatureV3 "[4, 5, 0]"]
    parse_version_and_length_gates [of new_SignatureV3 "[255, 5, 0]"]
    parse_version_and_length_gates [of new_SignatureV3 "[3, 4, 0]"]
    parse_version_and_length_gates [of new_SignatureV3 "[2, 6, 0]"]
    parse_version_and_length_gates [of new_SignatureV3 example_packet]
  by (simp add: example_packet_def)

subsection \<open>C7: the two integers of a DSA signature\<close>

text \<open>
  Claim C7: for a DSA packet, decoding reads the first integer into r and the second
  into s, in that order, and a failure to read the first ends the call before the
  second is tried. Let the source pass the header with DSA as its algorithm. When the
  header is followed by the encodings of two well-formed integers, the first is r
  and the second is s in the decoded record, and what follows them is left in the
  source. When reading an integer from what follows the header fails, \<open>parse\<close> returns
  that error with the source as that one read has left it, and the s slot of the
  record is as it was before the call.
\<close>

theorem parse_DSA_order:
  assumes "19 \<le> length bs" and "bs ! 0 = 2 \<or> bs ! 0 = 3" and "bs ! 1 = 5"
      and "bs ! 15 = PubKeyAlgoDSA" and "HashIdToHashWithSha1Md5 (bs ! 16) = Some h"
  shows "(\<forall>a b rest. well_formed_MPI a \<and> well_formed_MPI b \<and>
            drop 19 bs = MPI_EncodedBytes a @ MPI_EncodedBytes b @ rest \<longrightarrow>
            (\<exists>sig'. parse sig bs = (None, sig', rest) \<and>
               DSASigR sig' = Some a \<and> DSASigS sig' = Some b)) \<and>
         (\<forall>err m r. MPI_ReadFrom new_MPI (drop 19 bs) = (Some err, m, r) \<longrightarrow>
            (\<exists>sig'. parse sig bs = (Some err, sig', r) \<and>
               DSASigR sig' = Some m \<and> DSASigS sig' = DSASigS sig))"
proof -
  have p: "parse sig bs = parse_material (sig\<lparr>SigType := bs ! 2,
          CreationTime := time_Unix (uint (BigEndian_Uint32 (take 4 (drop 3 bs)))) 0,
          IssuerKeyId := BigEndian_Uint64 (take 8 (drop 7 bs)),
          PubKeyAlgo := bs ! 15, Hash := h, HashTag := (bs ! 17, bs ! 18)\<rparr>) (drop 19 bs)"
    using assms by (simp add: parse_def parse_header_ok)
  show ?thesis
    unfolding p using assms(4)
    by (auto simp add: parse_material_def PubKeyAlgo_defs MPI_ReadFrom_EncodedBytes)
qed

theorem parse_DSA_order_witness:
  "(19 :: nat) \<le> length example_DSA_packet \<and> example_DSA_packet ! 0 = 3 \<and>
   example_DSA_packet ! 1 = 5 \<and> example_DSA_packet ! 15 = PubKeyAlgoDSA \<and>
   HashIdToHashWithSha1Md5 (example_DSA_packet ! 16) = Some SHA1 \<and>
   well_formed_MPI \<lparr>bytes = Some [0x7F], bitLength = 7\<rparr> \<and>
   well_formed_MPI \<lparr>bytes = Some [1, 2], bitLength = 9\<rparr> \<and>
   drop 19 example_DSA_packet =
     MPI_EncodedBytes \<lparr>bytes = Some [0x7F], bitLength = 7\<rparr> @
     MPI_EncodedBytes \<lparr>bytes = Some [1, 2], bitLength = 9\<rparr> @ [] \<and>
   (\<exists>sig'. parse new_SignatureV3 example_DSA_packet = (None, sig', []) \<and>
      DSASigR sig' = Some \<lparr>bytes = Some [0x7F], bitLength = 7\<rparr> \<and>
      DSASigS sig' = Some \<lparr>bytes = Some [1, 2], bitLength = 9\<rparr>) \<and>
   MPI_ReadFrom new_MPI (drop 19 (take 21 example_DSA_packet)) =
     (Some ErrUnexpectedEOF, \<lparr>bytes = Some [0], bitLength = 7\<rparr>, []) \<and>
   (\<exists>sig'. parse new_SignatureV3 (take 21 example_DSA_packet) =
      (Some ErrUnexpectedEOF, sig', []) \<and>
      DSASigR sig' = Some \<lparr>bytes = Some [0], bitLength = 7\<rparr> \<and> DSASigS sig' = None)"
proof -
  let ?a = "\<lparr>bytes = Some [0x7F], bitLength = 7 :: 16 word\<rparr>"
  let ?b = "\<lparr>bytes = Some [1, 2 :: byte], bitLength = 9 :: 16 word\<rparr>"
  let ?bs = example_DSA_packet
  let ?cut = "take 21 example_DSA_packet"
  have f: "19 \<le> length ?bs" "?bs ! 0 = 2 \<or> ?bs ! 0 = 3" "?bs ! 1 = 5"
    "?bs ! 15 = PubKeyAlgoDSA" "HashIdToHashWithSha1Md5 (?bs ! 16) = Some SHA1"
    by (simp_all add: example_DSA_packet_def PubKeyAlgo_defs HashIdToHashWithSha1Md5_def
        HashById_def crypto_Hash_defs)
  have g: "19 \<le> length ?cut" "?cut ! 0 = 2 \<or> ?cut ! 0 = 3" "?cut ! 1 = 5"
    "?cut ! 15 = PubKeyAlgoDSA" "HashIdToHashWithSha1Md5 (?cut ! 16) = Some SHA1"
    by (simp_all add: example_DSA_packet_def PubKeyAlgo_defs HashIdToHashWithSha1Md5_def
        HashById_def crypto_Hash_defs)
  have w: "well_formed_MPI ?a" "well_formed_MPI ?b"
    by (simp_all add: well_formed_MPI_def)
  have d: "drop 19 ?bs = MPI_EncodedBytes ?a @ MPI_EncodedBytes ?b @ []"
    by (simp add: example_DSA_packet_def MPI_EncodedBytes_def)
  have e: "MPI_ReadFrom new_MPI (drop 19 ?cut) =
      (Some ErrUnexpectedEOF, \<lparr>bytes = Some [0], bitLength = 7\<rparr>, [])"
    by (simp add: example_DSA_packet_def MPI_ReadFrom_def io_ReadFull_def Let_def)
  have n: "DSASigS new_SignatureV3 = None" "?bs ! 0 = 3"
    by (simp_all add: new_SignatureV3_def example_DSA_packet_def)
  from parse_DSA_order [OF f, of new_SignatureV3] w d
  have 1: "\<exists>sig'. parse new_SignatureV3 ?bs = (None, sig', []) \<and>
      DSASigR sig' = Some ?a \<and> DSASigS sig' = Some ?b"
    by blast
  from parse_DSA_order [OF g, of new_SignatureV3] e n
  have 2: "\<exists>sig'. parse new_SignatureV3 ?cut = (Some ErrUnexpectedEOF, sig', []) \<and>
      DSASigR sig' = Some \<lparr>bytes = Some [0], bitLength = 7\<rparr> \<and> DSASigS sig' = None"
    by fastforce
  from f n w d e 1 2 show ?thesis by simp
qed

subsection \<open>C8: which shape of signature material a decoded record has\<close>

text \<open>
  Claim C8: after a successful decode into a fresh record, exactly one shape of
  signature material is there, and the public-key algorithm, the octet at offset 15,
  says which: for an RSA algorithm the RSA integer is set and r and s are not, for DSA r
  and s are set and the RSA integer is not.
\<close>

theorem parse_material_shape:
  assumes "parse sig0 bs = (None, sig, rest)"
      and "RSASignature sig0 = None" and "DSASigR sig0 = None" and "DSASigS sig0 = None"
  shows "PubKeyAlgo sig = bs ! 15 \<and>
         ((PubKeyAlgo sig = PubKeyAlgoRSA \<or> PubKeyAlgo sig = PubKeyAlgoRSASignOnly) \<and>
            (\<exists>m. RSASignature sig = Some m \<and> bytes m \<noteq> None) \<and>
            DSASigR sig = None \<and> DSASigS sig = None
          \<or>
          PubKeyAlgo sig = PubKeyAlgoDSA \<and> RSASignature sig = None \<and>
            (\<exists>r. DSASigR sig = Some r \<and> bytes r \<noteq> None) \<and>
            (\<exists>s. DSASigS sig = Some s \<and> bytes s \<noteq> None))"
proof -
  from assms(1) have "fst (parse sig0 bs) = None" by simp
  from parse_success_header [OF this] obtain h where
    len: "19 \<le> length bs" and v: "bs ! 0 = 2 \<or> bs ! 0 = 3" and l5: "bs ! 1 = 5" and
    algo: "bs ! 15 = PubKeyAlgoRSA \<or> bs ! 15 = PubKeyAlgoRSASignOnly \<or> bs ! 15 = PubKeyAlgoDSA" and
    h: "HashIdToHashWithSha1Md5 (bs ! 16) = Some h"
    by blast
  have wf: "bytes m \<noteq> None" if "MPI_ReadFrom new_MPI r = (None, m, r')" for m r r'
    using MPI_ReadFrom_well_formed [OF that] by (auto simp add: well_formed_MPI_def split: option.splits)
  from parse_header_ok [OF len v l5 algo h, of sig0] assms(1)
  have m: "parse_material (sig0\<lparr>SigType := bs ! 2,
          CreationTime := time_Unix (uint (BigEndian_Uint32 (take 4 (drop 3 bs)))) 0,
          IssuerKeyId := BigEndian_Uint64 (take 8 (drop 7 bs)),
          PubKeyAlgo := bs ! 15, Hash := h, HashTag := (bs ! 17, bs ! 18)\<rparr>) (drop 19 bs) =
        (None, sig, rest)"
    by (simp add: parse_def)
  obtain e1 m1 r1 where r1: "MPI_ReadFrom new_MPI (drop 19 bs) = (e1, m1, r1)"
    by (cases "MPI_ReadFrom new_MPI (drop 19 bs)") auto
  obtain e2 m2 r2 where r2: "MPI_ReadFrom new_MPI r1 = (e2, m2, r2)"
    by (cases "MPI_ReadFrom new_MPI r1") auto
  show ?thesis
    using m algo assms(2-4) r1 r2 wf [of "drop 19 bs" m1 r1] wf [of r1 m2 r2]
    by (auto simp add: parse_material_def PubKeyAlgo_defs split: if_splits option.splits)
qed

theorem parse_material_shape_witness:
  "parse new_SignatureV3 example_packet = (None, example_record, []) \<and>
   RSASignature new_SignatureV3 = None \<and> DSASigR new_SignatureV3 = None \<and>
   DSASigS new_SignatureV3 = None \<and>
   PubKeyAlgo example_record = example_packet ! 15 \<and>
   PubKeyAlgo example_record = PubKeyAlgoRSA \<and>
   (\<exists>m. RSASignature example_record = Some m \<and> bytes m \<noteq> None) \<and>
   DSASigR example_record = None \<and> DSASigS example_record = None"
proof -
  have p: "parse new_SignatureV3 example_packet = (None, example_record, [])"
    by (rule parse_example_packet)
  have n: "RSASignature new_SignatureV3 = None" "DSASigR new_SignatureV3 = None"
    "DSASigS new_SignatureV3 = None"
    by (simp_all add: new_SignatureV3_def)
  have a: "PubKeyAlgo example_record \<noteq> PubKeyAlgoDSA" "PubKeyAlgo example_record = PubKeyAlgoRSA"
    by (simp_all add: example_record_def PubKeyAlgo_defs)
  from parse_material_shape [OF p n] p n a show ?thesis by simp
qed

subsection \<open>C9: the creation time on the wire\<close>

text \<open>
  Claim C9: \<open>Serialize\<close> writes the creation time as four octets, the big-endian seconds
  since the epoch; the fraction of a second is dropped and seconds beyond 32 bits wrap
  modulo \<open>2 ^ 32\<close> without an error; \<open>parse\<close> reads the four octets back as whole
  seconds. First, with any sink, a record serializes as the record whose creation time
  is the seconds modulo \<open>2 ^ 32\<close> and no nanoseconds does. Second, the four octets after
  the signature type are the big-endian number of the seconds modulo \<open>2 ^ 32\<close>. Third,
  the creation time of a decoded record is the big-endian number at offsets 3 to 6, in
  whole seconds, which lies between 0 and \<open>2 ^ 32\<close>.
\<close>

theorem CreationTime_on_the_wire:
  "Serialize Write (sig\<lparr>CreationTime := \<lparr>sec = s, nsec = n\<rparr>\<rparr>) w =
     Serialize Write (sig\<lparr>CreationTime := \<lparr>sec = s mod 2 ^ 32, nsec = 0\<rparr>\<rparr>) w \<and>
   (\<exists>err tb rest.
      Serialize Buffer_Write (sig\<lparr>CreationTime := \<lparr>sec = s, nsec = n\<rparr>\<rparr>) b =
        (err, b @ SigType sig # tb @ rest) \<and>
      length tb = 4 \<and> uint (BigEndian_Uint32 tb) = s mod 2 ^ 32) \<and>
   (\<forall>sig0 bs sig' r. parse sig0 bs = (None, sig', r) \<longrightarrow>
      CreationTime sig' = \<lparr>sec = uint (BigEndian_Uint32 (take 4 (drop 3 bs))), nsec = 0\<rparr> \<and>
      0 \<le> sec (CreationTime sig') \<and> sec (CreationTime sig') < 2 ^ 32)"
proof (intro conjI allI impI)
  show "Serialize Write (sig\<lparr>CreationTime := \<lparr>sec = s, nsec = n\<rparr>\<rparr>) w =
     Serialize Write (sig\<lparr>CreationTime := \<lparr>sec = s mod 2 ^ 32, nsec = 0\<rparr>\<rparr>) w"
    by (rule Serialize_time)
  obtain err rest where "Serialize Buffer_Write (sig\<lparr>CreationTime := \<lparr>sec = s, nsec = n\<rparr>\<rparr>) b =
      (err, b @ SigType sig # BigEndian_PutUint32 (word_of_int s) @ rest)"
    using Serialize_Buffer_prefix [of "sig\<lparr>CreationTime := \<lparr>sec = s, nsec = n\<rparr>\<rparr>" b] by (auto simp add: Unix_def)
  moreover have "length (BigEndian_PutUint32 (word_of_int s)) = 4"
    by (simp add: BigEndian_PutUint32_def)
  moreover have "uint (BigEndian_Uint32 (BigEndian_PutUint32 (word_of_int s))) = s mod 2 ^ 32"
    by (simp add: Uint32_PutUint32 uint_word_of_int)
  ultimately show "\<exists>err tb rest.
      Serialize Buffer_Write (sig\<lparr>CreationTime := \<lparr>sec = s, nsec = n\<rparr>\<rparr>) b =
        (err, b @ SigType sig # tb @ rest) \<and>
      length tb = 4 \<and> uint (BigEndian_Uint32 tb) = s mod 2 ^ 32"
    by blast
next
  fix sig0 bs sig' r
  assume ok: "parse sig0 bs = (None, sig', r)"
  then have "fst (parse sig0 bs) = None" by simp
  from parse_success_header [OF this] obtain h where
    len: "19 \<le> length bs" and v: "bs ! 0 = 2 \<or> bs ! 0 = 3" and l5: "bs ! 1 = 5" and
    algo: "bs ! 15 = PubKeyAlgoRSA \<or> bs ! 15 = PubKeyAlgoRSASignOnly \<or> bs ! 15 = PubKeyAlgoDSA" and
    h: "HashIdToHashWithSha1Md5 (bs ! 16) = Some h"
    by blast
  from parse_header_ok [OF len v l5 algo h, of sig0] ok
  have "parse_material (sig0\<lparr>SigType := bs ! 2,
          CreationTime := time_Unix (uint (BigEndian_Uint32 (take 4 (drop 3 bs)))) 0,
          IssuerKeyId := BigEndian_Uint64 (take 8 (drop 7 bs)),
          PubKeyAlgo := bs ! 15, Hash := h, HashTag := (bs ! 17, bs ! 18)\<rparr>) (drop 19 bs) =
        (None, sig', r)"
    by (simp add: parse_def)
  then show t: "CreationTime sig' = \<lparr>sec = uint (BigEndian_Uint32 (take 4 (drop 3 bs))), nsec = 0\<rparr>"
    by (auto simp add: parse_material_def time_Unix_def split: if_splits prod.splits option.splits)
  show "0 \<le> sec (CreationTime sig')"
    unfolding t by simp
  have "uint (BigEndian_Uint32 (take 4 (drop 3 bs))) < 2 ^ LENGTH(32)"
    by (rule uint_lt2p)
  then show "sec (CreationTime sig') < 2 ^ 32"
    unfolding t by simp
qed

theorem CreationTime_on_the_wire_witness:
  "Serialize Buffer_Write (example_record\<lparr>CreationTime := \<lparr>sec = 2 ^ 32 + 5, nsec = 7\<rparr>\<rparr>) [] =
     Serialize Buffer_Write (example_record\<lparr>CreationTime := \<lparr>sec = 5, nsec = 0\<rparr>\<rparr>) [] \<and>
   Serialize Buffer_Write (example_record\<lparr>CreationTime := \<lparr>sec = 5, nsec = 0\<rparr>\<rparr>) [] =
     (None, [0, 0, 0, 0, 5, 1, 2, 3, 4, 5, 6, 7, 8, 1, 2, 0xAB, 0xCD, 0, 7, 0x7F]) \<and>
   parse new_SignatureV3 example_packet = (None, example_record, []) \<and>
   CreationTime example_record =
     \<lparr>sec = uint (BigEndian_Uint32 (take 4 (drop 3 example_packet))), nsec = 0\<rparr> \<and>
   sec (CreationTime example_record) = 0x5F000001"
proof -
  have p: "parse new_SignatureV3 example_packet = (None, example_record, [])"
    by (rule parse_example_packet)
  have m: "((2 ^ 32 + 5) :: int) mod 2 ^ 32 = 5"
    by simp
  have s: "Serialize Buffer_Write (example_record\<lparr>CreationTime := \<lparr>sec = 5, nsec = 0\<rparr>\<rparr>) [] =
     (None, [0, 0, 0, 0, 5, 1, 2, 3, 4, 5, 6, 7, 8, 1, 2, 0xAB, 0xCD, 0, 7, 0x7F])"
    by (simp add: example_record_def Serialize_eval)
  have c: "sec (CreationTime example_record) = 0x5F000001"
    by (simp add: example_record_def)
  from CreationTime_on_the_wire [where Write = Buffer_Write and sig = example_record
      and s = "2 ^ 32 + 5" and n = 7 and w = "[]" and b = "[]"]
  have "Serialize Buffer_Write (example_record\<lparr>CreationTime := \<lparr>sec = 2 ^ 32 + 5, nsec = 7\<rparr>\<rparr>) [] =
     Serialize Buffer_Write (example_record\<lparr>CreationTime := \<lparr>sec = 5, nsec = 0\<rparr>\<rparr>) []"
    and "CreationTime example_record =
     \<lparr>sec = uint (BigEndian_Uint32 (take 4 (drop 3 example_packet))), nsec = 0\<rparr>"
    using p unfolding m by blast+
  with p s c show ?thesis by simp
qed

subsection \<open>C10: PrepareVerify\<close>

text \<open>
  Claim C10: \<open>PrepareVerify\<close> returns a fresh, empty accumulator for the record's hash
  algorithm when the provider implements that algorithm, fails exactly when it does
  not, and leaves the record as it is.
\<close>

theorem PrepareVerify_result:
  "PrepareVerify p sig =
     (if p (Hash sig) then Inr \<lparr>algorithm = Hash sig, absorbed = []\<rparr>
      else Inl (UnsupportedError ''hash function''), sig)"
  by (simp add: PrepareVerify_def Available_def New_def)

theorem PrepareVerify_result_witness:
  "PrepareVerify (\<lambda>h. h = SHA1) example_record =
     (Inr \<lparr>algorithm = SHA1, absorbed = []\<rparr>, example_record) \<and>
   PrepareVerify (\<lambda>h. h = SHA256) example_record =
     (Inl (UnsupportedError ''hash function''), example_record)"
  using PrepareVerify_result [of "\<lambda>h. h = SHA1" example_record]
    PrepareVerify_result [of "\<lambda>h. h = SHA256" example_record]
  by (simp add: example_record_def crypto_Hash_defs)

end
